theory Spec2Isabelle
  imports Main "HOL-Library.Sublist" "HOL-Library.AList"
begin

section \<open>Python values used by the drivers\<close>

text \<open>
  JSON documents as \<^verbatim>\<open>response.json()\<close> hands them to the driver: a dict is an
  association list (insertion order kept, keys unique), numbers are Python ints.
\<close>

datatype json =
    JNull
  | JBool bool
  | JInt int
  | JStr string
  | JList "json list"
  | JDict "(string \<times> json) list"

type_synonym dict = "(string \<times> json) list"

text \<open>Python truthiness (\<^verbatim>\<open>if name:\<close>, \<^verbatim>\<open>if not data:\<close>).\<close>

fun truthy :: "json \<Rightarrow> bool" where
  "truthy JNull = False"
| "truthy (JBool b) = b"
| "truthy (JInt i) = (i \<noteq> 0)"
| "truthy (JStr s) = (s \<noteq> [])"
| "truthy (JList xs) = (xs \<noteq> [])"
| "truthy (JDict kvs) = (kvs \<noteq> [])"

text \<open>\<^verbatim>\<open>d[k] = v\<close> and \<^verbatim>\<open>d.update(other)\<close> on a dict.\<close>

definition dict_set :: "dict \<Rightarrow> string \<Rightarrow> json \<Rightarrow> dict" where
  "dict_set d k v = AList.update k v d"

definition dict_update :: "dict \<Rightarrow> dict \<Rightarrow> dict" where
  "dict_update d other = foldl (\<lambda>acc kv. dict_set acc (fst kv) (snd kv)) d other"

text \<open>
  The exceptions the two modules raise or let through. \<open>VolumeBackendAPIException\<close> is
  raised both with \<^verbatim>\<open>data=\<close> and with \<^verbatim>\<open>message=\<close>; the payload keeps which.
  The last five are Python's own.
\<close>

datatype payload = Data string | Message string

datatype exn =
    VolumeDriverException string
  | NotFound
  | VolumeNotFound json
  | VolumeBackendAPIException payload
  | XtremIOAlreadyMappedError
  | XtremIOArrayBusy
  | XtremIOSnapshotsLimitExceeded
  | ValueError
  | AttributeError
  | KeyError
  | IndexError
  | TypeError

text \<open>
  Modelled from the spec: the exception classes of \<^verbatim>\<open>cinder/exception.py\<close>, which is
  not among the sources. The spec's taxonomy keeps the kinds apart, so an
  \<^verbatim>\<open>except\<close> clause catches the class it names; \<open>VolumeNotFound\<close> is the
  volume-specific \<open>NotFound\<close>.
\<close>

fun is_NotFound :: "exn \<Rightarrow> bool" where
  "is_NotFound NotFound = True"
| "is_NotFound (VolumeNotFound k) = True"
| "is_NotFound e = False"

fun is_VolumeBackendAPIException :: "exn \<Rightarrow> bool" where
  "is_VolumeBackendAPIException (VolumeBackendAPIException p) = True"
| "is_VolumeBackendAPIException e = False"

fun is_XtremIOArrayBusy :: "exn \<Rightarrow> bool" where
  "is_XtremIOArrayBusy XtremIOArrayBusy = True"
| "is_XtremIOArrayBusy e = False"

text \<open>\<^verbatim>\<open>x[k]\<close> with a string key and \<^verbatim>\<open>x[i]\<close> with a non-negative index.\<close>

fun getitem :: "json \<Rightarrow> string \<Rightarrow> exn + json" where
  "getitem (JDict kvs) k = (case map_of kvs k of None \<Rightarrow> Inl KeyError | Some v \<Rightarrow> Inr v)"
| "getitem j k = Inl TypeError"

fun getindex :: "json \<Rightarrow> nat \<Rightarrow> exn + json" where
  "getindex (JList xs) i = (if i < length xs then Inr (xs ! i) else Inl IndexError)"
| "getindex (JStr s) i = (if i < length s then Inr (JStr [s ! i]) else Inl IndexError)"
| "getindex (JDict kvs) i = Inl KeyError"
| "getindex j i = Inl TypeError"

text \<open>\<^verbatim>\<open>s.split(c)\<close> with a one-character separator.\<close>

fun split :: "char \<Rightarrow> string \<Rightarrow> string list" where
  "split c [] = [[]]"
| "split c (x # xs) =
     (if x = c then [] # split c xs
      else (case split c xs of [] \<Rightarrow> [[x]] | y # ys \<Rightarrow> (x # y) # ys))"

text \<open>\<^verbatim>\<open>str(n)\<close> and \<^verbatim>\<open>'%d' % n\<close> for an int.\<close>

definition digit_char :: "nat \<Rightarrow> char" where
  "digit_char d = (''0123456789'' ! d)"

fun str_nat :: "nat \<Rightarrow> string" where
  "str_nat n = (if n < 10 then [digit_char n] else str_nat (n div 10) @ [digit_char (n mod 10)])"

declare str_nat.simps [simp del]

definition str_int :: "int \<Rightarrow> string" where
  "str_int i = (if i < 0 then CHR ''-'' # str_nat (nat (- i)) else str_nat (nat i))"

text \<open>
  \<^verbatim>\<open>int(s)\<close> on an ASCII string: surrounding whitespace is dropped, one sign is
  allowed, digits may be grouped by single underscores; anything else is a ValueError.
\<close>

definition is_space :: "char \<Rightarrow> bool" where
  "is_space c = (c \<in> set [CHR '' '', CHR 0x09, CHR 0x0A, CHR 0x0B, CHR 0x0C, CHR 0x0D])"

definition is_digit :: "char \<Rightarrow> bool" where
  "is_digit c = (c \<in> set ''0123456789'')"

definition digit_val :: "char \<Rightarrow> int" where
  "digit_val c = int (of_char c) - 48"

definition strip :: "string \<Rightarrow> string" where
  "strip s = rev (dropWhile is_space (rev (dropWhile is_space s)))"

fun digit_groups :: "string \<Rightarrow> bool" where
  "digit_groups [] = False"
| "digit_groups [c] = is_digit c"
| "digit_groups (c # d # cs) =
     (is_digit c \<and> (if d = CHR ''_'' then digit_groups cs else digit_groups (d # cs)))"

definition py_int :: "string \<Rightarrow> exn + int" where
  "py_int s =
     (let t = strip s;
          neg = (t \<noteq> [] \<and> hd t = CHR ''-'');
          u = (if t \<noteq> [] \<and> (hd t = CHR ''-'' \<or> hd t = CHR ''+'') then tl t else t)
      in if digit_groups u
         then (let v = foldl (\<lambda>a c. 10 * a + digit_val c) 0 (filter (\<lambda>c. c \<noteq> CHR ''_'') u)
               in Inr (if neg then - v else v))
         else Inl ValueError)"




section \<open>The XtremIO REST client (\<^verbatim>\<open>xtremio.py\<close>)\<close>

subsection \<open>Configuration, requests, responses and the world\<close>

text \<open>The options of \<open>XTREMIO_OPTS\<close> and of the SAN driver that the client reads.\<close>

record configuration =
  san_ip :: string
  san_login :: string
  san_password :: string
  driver_ssl_cert_verify :: "bool option"
  driver_ssl_cert_path :: "string option"
  xtremio_cluster_name :: string
  xtremio_array_busy_retry_count :: nat
  xtremio_array_busy_retry_interval :: int
  xtremio_volumes_per_glance_cache :: int

text \<open>The defaults declared in \<open>XTREMIO_OPTS\<close>, for an array at the given address.\<close>

definition default_configuration :: "string \<Rightarrow> string \<Rightarrow> string \<Rightarrow> configuration" where
  "default_configuration ip login password =
     \<lparr>san_ip = ip, san_login = login, san_password = password,
      driver_ssl_cert_verify = None, driver_ssl_cert_path = None,
      xtremio_cluster_name = [],
      xtremio_array_busy_retry_count = 5,
      xtremio_array_busy_retry_interval = 5,
      xtremio_volumes_per_glance_cache = 100\<rparr>"

datatype verify = Verify bool | VerifyPath string

datatype variant = XtremIOClient3 | XtremIOClient4

record client =
  configuration :: configuration
  cluster_id :: json
  verify :: verify
  variant :: variant

text \<open>
  \<^verbatim>\<open>XtremIOClient.__init__\<close>, shared by both subclasses. The cluster id is a JSON value
  because \<open>get_cluster\<close> stores a name taken from a response in it.
\<close>

definition XtremIOClient_init :: "variant \<Rightarrow> configuration \<Rightarrow> json \<Rightarrow> client" where
  "XtremIOClient_init var conf cid =
     (let v = (case driver_ssl_cert_verify conf of Some True \<Rightarrow> True | _ \<Rightarrow> False)
      in \<lparr>configuration = conf, cluster_id = cid,
          verify = (if v then (case driver_ssl_cert_path conf of
                                 None \<Rightarrow> Verify True
                               | Some p \<Rightarrow> (if p \<noteq> [] then VerifyPath p else Verify True))
                    else Verify False),
          variant = var\<rparr>)"

record request =
  r_method :: string
  r_url :: string
  r_params :: dict
  r_data :: dict
  r_verify :: verify
  r_auth :: "string \<times> string"

text \<open>
  A response of the \<^verbatim>\<open>requests\<close> library: \<open>json_body\<close> is what
  \<^verbatim>\<open>response.json()\<close> returns, \<open>None\<close> when the text is not JSON (a ValueError).
\<close>

record response =
  status_code :: int
  text_of :: string
  json_body :: "json option"

datatype reply = Response response | RequestException string

datatype level = DEBUG | INFO | WARNING | ERROR

text \<open>
  What a call leaves behind, in order: a request put on the wire, a sleep of the retry
  decorator, a log record (its format string), an entry into \<open>handle_errors\<close>.
\<close>

datatype event =
    Sent request
  | Slept int
  | Logged level string
  | Classify response

text \<open>
  The array is outside the driver: \<open>array\<close> is its state, of any type, and a transport
  answers a request and moves that state. What the module finds around it is the
  transport and \<open>CONF\<close>, the process-wide options that the decorator of \<open>req\<close> reads
  (the client's own \<open>configuration\<close> is the view of one backend); every function below
  takes this environment.
\<close>

record 's world =
  array :: 's
  events :: "event list"

type_synonym 's transport = "request \<Rightarrow> 's \<Rightarrow> reply \<times> 's"

record 's env =
  transport :: "'s transport"
  CONF :: configuration

definition emit :: "event \<Rightarrow> 's world \<Rightarrow> 's world" where
  "emit e w = w\<lparr>events := events w @ [e]\<rparr>"

definition requests_request :: "'s transport \<Rightarrow> request \<Rightarrow> 's world \<Rightarrow> reply \<times> 's world" where
  "requests_request send r w =
     (case send r (array w) of (rep, a') \<Rightarrow> (rep, emit (Sent r) (w\<lparr>array := a'\<rparr>)))"

definition sent :: "'s world \<Rightarrow> request list" where
  "sent w = concat (map (\<lambda>e. case e of Sent r \<Rightarrow> [r] | _ \<Rightarrow> []) (events w))"

definition slept :: "'s world \<Rightarrow> int list" where
  "slept w = concat (map (\<lambda>e. case e of Slept n \<Rightarrow> [n] | _ \<Rightarrow> []) (events w))"

definition classified :: "'s world \<Rightarrow> response list" where
  "classified w = concat (map (\<lambda>e. case e of Classify r \<Rightarrow> [r] | _ \<Rightarrow> []) (events w))"

subsection \<open>Error translation\<close>

definition OBJ_NOT_FOUND_ERR :: string where "OBJ_NOT_FOUND_ERR = ''obj_not_found''"
definition VOL_NOT_UNIQUE_ERR :: string where "VOL_NOT_UNIQUE_ERR = ''vol_obj_name_not_unique''"
definition VOL_OBJ_NOT_FOUND_ERR :: string where "VOL_OBJ_NOT_FOUND_ERR = ''vol_obj_not_found''"
definition ALREADY_MAPPED_ERR :: string where "ALREADY_MAPPED_ERR = ''already_mapped''"
definition SYSTEM_BUSY :: string where "SYSTEM_BUSY = ''system_is_busy''"
definition TOO_MANY_OBJECTS :: string where "TOO_MANY_OBJECTS = ''too_many_objs''"
definition TOO_MANY_SNAPSHOTS_PER_VOL :: string where
  "TOO_MANY_SNAPSHOTS_PER_VOL = ''too_many_snapshots_per_vol''"

text \<open>The fall-through of \<open>handle_errors\<close>: the raw response text, logged and raised.\<close>

definition bad_response :: "response \<Rightarrow> 's world \<Rightarrow> exn \<times> 's world" where
  "bad_response resp w =
     (let msg = ''Bad response from XMS, '' @ text_of resp
      in (VolumeBackendAPIException (Message msg), emit (Logged ERROR msg) w))"

text \<open>
  The chain of tests on the message of a 400 response; \<open>None\<close> when no test matches and
  control falls out of the \<^verbatim>\<open>if\<close>.
\<close>

definition classify_message :: "string \<Rightarrow> json \<Rightarrow> 's world \<Rightarrow> exn option \<times> 's world" where
  "classify_message err_msg key w =
     (if suffix OBJ_NOT_FOUND_ERR err_msg then
        (Some NotFound,
         emit (Logged WARNING ''object %(key)s of type %(typ)s not found, %(err_msg)s'') w)
      else if err_msg = VOL_NOT_UNIQUE_ERR then
        (Some (VolumeBackendAPIException (Data ''Volume by this name already exists'')),
         emit (Logged ERROR ''can't create 2 volumes with the same name, %s'') w)
      else if err_msg = VOL_OBJ_NOT_FOUND_ERR then
        (Some (VolumeNotFound key),
         emit (Logged ERROR ''Can't find volume to map %(key)s, %(msg)s'') w)
      else if sublist ALREADY_MAPPED_ERR err_msg then (Some XtremIOAlreadyMappedError, w)
      else if err_msg = SYSTEM_BUSY then (Some XtremIOArrayBusy, w)
      else if err_msg \<in> set [TOO_MANY_OBJECTS, TOO_MANY_SNAPSHOTS_PER_VOL] then
        (Some XtremIOSnapshotsLimitExceeded, w)
      else (None, w))"

text \<open>
  \<open>handle_errors\<close> never returns: the value is the exception it raises. On a 400 it reads
  \<^verbatim>\<open>response.json().get('message')\<close>, which needs a JSON dict, and calls
  \<^verbatim>\<open>endswith\<close> on it, which needs a string.
\<close>

definition handle_errors :: "response \<Rightarrow> json \<Rightarrow> string \<Rightarrow> 's world \<Rightarrow> exn \<times> 's world" where
  "handle_errors resp key object_type w0 =
     (let w = emit (Classify resp) w0
      in if status_code resp = 400 then
           (case json_body resp of
              None \<Rightarrow> (ValueError, w)
            | Some (JDict error) \<Rightarrow>
                (case map_of error ''message'' of
                   Some (JStr err_msg) \<Rightarrow>
                     (case classify_message err_msg key w of
                        (Some e, w') \<Rightarrow> (e, w')
                      | (None, w') \<Rightarrow> bad_response resp w')
                 | _ \<Rightarrow> (AttributeError, w))
            | Some _ \<Rightarrow> (AttributeError, w))
         else bad_response resp w)"

subsection \<open>Building and sending one request\<close>

definition get_base_url :: "client \<Rightarrow> string \<Rightarrow> string option" where
  "get_base_url c ver =
     (if ver = ''v1'' then Some (''https://'' @ san_ip (configuration c) @ ''/api/json/types'')
      else if ver = ''v2'' then Some (''https://'' @ san_ip (configuration c) @ ''/api/json/v2/types'')
      else None)"

text \<open>\<open>update_url\<close> and \<open>update_data\<close>: no-ops in the base class, overridden by \<open>XtremIOClient4\<close>.\<close>

definition update_url :: "client \<Rightarrow> dict \<Rightarrow> json \<Rightarrow> dict" where
  "update_url c d cid =
     (case variant c of
        XtremIOClient3 \<Rightarrow> d
      | XtremIOClient4 \<Rightarrow> (if truthy cid then dict_set d ''cluster-name'' cid else d))"

definition update_data :: "client \<Rightarrow> dict \<Rightarrow> json \<Rightarrow> dict" where
  "update_data c d cid =
     (case variant c of
        XtremIOClient3 \<Rightarrow> d
      | XtremIOClient4 \<Rightarrow> (if truthy cid then dict_set d ''cluster-id'' cid else d))"

text \<open>
  The request that the body of \<open>req\<close> hands to \<^verbatim>\<open>requests.request\<close>, and the key it
  keeps for error reports. \<open>data\<close> is the caller's dict (\<open>[]\<close> for \<^verbatim>\<open>None\<close> or
  \<^verbatim>\<open>{}\<close>, which \<open>req\<close> replaces by a fresh \<^verbatim>\<open>{}\<close>); \<open>name\<close> is \<open>JNull\<close> and
  \<open>idx\<close> is \<open>None\<close> when not given.
\<close>

definition req_url :: "client \<Rightarrow> string \<Rightarrow> json \<Rightarrow> int option \<Rightarrow> string \<Rightarrow> string" where
  "req_url c object_type name idx ver =
     (let url = (case get_base_url c ver of None \<Rightarrow> ''None'' | Some b \<Rightarrow> b) @ ''/'' @ object_type
      in if truthy name then url
         else (case idx of
                 Some i \<Rightarrow> (if i \<noteq> 0 then url @ ''/'' @ str_int i else url)
               | None \<Rightarrow> url))"

definition req_key :: "json \<Rightarrow> int option \<Rightarrow> json" where
  "req_key name idx =
     (if truthy name then name
      else (case idx of
              Some i \<Rightarrow> (if i \<noteq> 0 then JStr (str_int i) else JNull)
            | None \<Rightarrow> JNull))"

definition req_params :: "client \<Rightarrow> string \<Rightarrow> dict \<Rightarrow> json \<Rightarrow> dict" where
  "req_params c method data name =
     (let params = (if truthy name then [(''name'', name)] else [])
      in if method \<in> set [''GET'', ''DELETE'']
         then update_url c (dict_update params data) (cluster_id c)
         else params)"

definition req_data :: "client \<Rightarrow> string \<Rightarrow> dict \<Rightarrow> dict" where
  "req_data c method data =
     (if method \<noteq> ''GET'' then update_data c data (cluster_id c) else data)"

definition build_request ::
  "client \<Rightarrow> string \<Rightarrow> string \<Rightarrow> dict \<Rightarrow> json \<Rightarrow> int option \<Rightarrow> string \<Rightarrow> request" where
  "build_request c object_type method data name idx ver =
     \<lparr>r_method = method,
      r_url = req_url c object_type name idx ver,
      r_params = req_params c method data name,
      r_data = req_data c method data,
      r_verify = verify c,
      r_auth = (san_login (configuration c), san_password (configuration c))\<rparr>"

text \<open>
  The undecorated body of \<open>XtremIOClient.req\<close>. The state it works on is the caller's
  \<open>data\<close> dict together with the world: \<open>update_data\<close> changes the dict in place,
  so a caller's non-empty dict comes back as it was sent, while for an empty one (or
  \<^verbatim>\<open>None\<close>) the body works on a fresh dict and the caller's stays empty.
\<close>

definition both_given :: "json \<Rightarrow> int option \<Rightarrow> bool" where
  "both_given name idx = (truthy name \<and> (case idx of Some i \<Rightarrow> i \<noteq> 0 | None \<Rightarrow> False))"

definition req_body ::
  "'s env \<Rightarrow> client \<Rightarrow> string \<Rightarrow> string \<Rightarrow> json \<Rightarrow> int option \<Rightarrow> string \<Rightarrow>
   dict \<times> 's world \<Rightarrow> (exn + json) \<times> (dict \<times> 's world)" where
  "req_body env c object_type method name idx ver st =
     (case st of (data, w) \<Rightarrow>
        if both_given name idx then
          (Inl (VolumeDriverException ''can't handle both name and index in req''),
           (data, emit (Logged ERROR ''can't handle both name and index in req'') w))
        else
          (let r = build_request c object_type method data name idx ver;
               data' = (if data = [] then data else r_data r);
               w1 = (if method \<noteq> ''GET'' then emit (Logged DEBUG ''data: %s'') w else w);
               w2 = emit (Logged DEBUG ''%(type)s %(url)s'') w1
           in case requests_request (transport env) r w2 of
                (RequestException exc, w3) \<Rightarrow>
                  (Inl (VolumeDriverException (''Exception: '' @ exc)), (data', w3))
              | (Response resp, w3) \<Rightarrow>
                  if 200 \<le> status_code resp \<and> status_code resp < 300 then
                    (if method \<in> set [''GET'', ''POST'']
                     then (case json_body resp of
                             None \<Rightarrow> (Inl ValueError, (data', w3))
                           | Some j \<Rightarrow> (Inr j, (data', w3)))
                     else (Inr (JStr []), (data', w3)))
                  else (case handle_errors resp (req_key name idx) object_type w3 of
                          (e, w4) \<Rightarrow> (Inl e, (data', w4)))))"

subsection \<open>The retry decorator\<close>

text \<open>
  Modelled from the spec: \<^verbatim>\<open>cinder.utils.retry\<close>, which is not among the sources. On an
  error of the retryable kind the wrapped call is made again after a sleep of the fixed
  interval (the decorator is given backoff rate 1), with the same arguments, up to the
  maximum attempt count; when the last permitted attempt fails too, its error goes to
  the caller. Any other error, and any result, is returned at once. The counter of the
  loop is the number of attempts still permitted after the current one; the first
  attempt is always made.
\<close>

fun retry_loop ::
  "(exn \<Rightarrow> bool) \<Rightarrow> ('st \<Rightarrow> 'st) \<Rightarrow> nat \<Rightarrow> ('st \<Rightarrow> (exn + 'a) \<times> 'st) \<Rightarrow> 'st \<Rightarrow> (exn + 'a) \<times> 'st" where
  "retry_loop retryable pause 0 f st = f st"
| "retry_loop retryable pause (Suc rest) f st =
     (case f st of
        (Inl e, st') \<Rightarrow>
          if retryable e then retry_loop retryable pause rest f (pause st') else (Inl e, st')
      | (Inr v, st') \<Rightarrow> (Inr v, st'))"

definition sleep :: "int \<Rightarrow> dict \<times> 's world \<Rightarrow> dict \<times> 's world" where
  "sleep interval st = (fst st, emit (Slept interval) (snd st))"

definition retry ::
  "(exn \<Rightarrow> bool) \<Rightarrow> nat \<Rightarrow> int \<Rightarrow> (dict \<times> 's world \<Rightarrow> (exn + 'a) \<times> (dict \<times> 's world)) \<Rightarrow>
   dict \<times> 's world \<Rightarrow> (exn + 'a) \<times> (dict \<times> 's world)" where
  "retry retryable max_attempts interval f st =
     retry_loop retryable (sleep interval) (max_attempts - 1) f st"

text \<open>
  \<open>XtremIOClient.req\<close> as decorated, with the retry options of \<open>CONF\<close>; the caller
  sees the result and the world.
\<close>

definition XtremIOClient_req ::
  "'s env \<Rightarrow> client \<Rightarrow> string \<Rightarrow> string \<Rightarrow> dict \<Rightarrow> json \<Rightarrow> int option \<Rightarrow> string \<Rightarrow>
   's world \<Rightarrow> (exn + json) \<times> 's world" where
  "XtremIOClient_req env c object_type method data name idx ver w =
     (case retry is_XtremIOArrayBusy
             (xtremio_array_busy_retry_count (CONF env))
             (xtremio_array_busy_retry_interval (CONF env))
             (req_body env c object_type method name idx ver) (data, w) of
        (res, (data', w')) \<Rightarrow> (res, w'))"

text \<open>
  \<open>self.client.req(...)\<close>: \<open>XtremIOClient4\<close> overrides \<open>req\<close> only to change the default of
  \<open>ver\<close> from \<^verbatim>\<open>'v1'\<close> to \<^verbatim>\<open>'v2'\<close>.
\<close>

definition req ::
  "'s env \<Rightarrow> client \<Rightarrow> string \<Rightarrow> string \<Rightarrow> dict \<Rightarrow> json \<Rightarrow> int option \<Rightarrow> string option \<Rightarrow>
   's world \<Rightarrow> (exn + json) \<times> 's world" where
  "req env c object_type method data name idx ver w =
     XtremIOClient_req env c object_type method data name idx
       (case ver of
          Some v \<Rightarrow> v
        | None \<Rightarrow> (case variant c of XtremIOClient3 \<Rightarrow> ''v1'' | XtremIOClient4 \<Rightarrow> ''v2'')) w"

subsection \<open>Operations of the two client variants\<close>

text \<open>Sequencing of computations that may raise.\<close>

definition and_then :: "exn + 'a \<Rightarrow> ('a \<Rightarrow> exn + 'b) \<Rightarrow> exn + 'b" where
  "and_then r f = (case r of Inl e \<Rightarrow> Inl e | Inr v \<Rightarrow> f v)"

text \<open>
  \<^verbatim>\<open>typ, idx = res['links'][0]['href'].split('/')[-2:]\<close>: the last two path segments
  of the link the array returns for a created object; unpacking fewer than two is a
  ValueError, and only a string has \<^verbatim>\<open>split\<close>.
\<close>

definition obj_ref :: "json \<Rightarrow> exn + (string \<times> string)" where
  "obj_ref res =
     and_then (getitem res ''links'') (\<lambda>links.
     and_then (getindex links 0) (\<lambda>link.
     and_then (getitem link ''href'') (\<lambda>href.
       case href of
         JStr h \<Rightarrow> (case rev (split CHR ''/'' h) of
                      i # t # rest \<Rightarrow> Inr (t, i)
                    | _ \<Rightarrow> Inl ValueError)
       | _ \<Rightarrow> Inl AttributeError)))"


text \<open>
  \<open>XtremIOClient4.create_snapshot\<close>: create, then rename the created object; when the
  rename raises \<open>VolumeBackendAPIException\<close> the created object is deleted and the
  exception raised again (unless the delete raises first).
\<close>

definition snapshot_set_request :: "string \<Rightarrow> string \<Rightarrow> bool \<Rightarrow> dict" where
  "snapshot_set_request src dest ro =
     [(''snapshot-set-name'', JStr dest), (''snap-suffix'', JStr dest),
      (''volume-list'', JList [JStr src]),
      (''snapshot-type'', JStr (if ro then ''readonly'' else ''regular''))]"

definition XtremIOClient4_create_snapshot ::
  "'s env \<Rightarrow> client \<Rightarrow> string \<Rightarrow> string \<Rightarrow> bool \<Rightarrow> 's world \<Rightarrow> (exn + unit) \<times> 's world" where
  "XtremIOClient4_create_snapshot env c src dest ro w =
     (case req env c ''snapshots'' ''POST'' (snapshot_set_request src dest ro) JNull None
             (Some ''v2'') w of
        (Inl e, w1) \<Rightarrow> (Inl e, w1)
      | (Inr res, w1) \<Rightarrow>
          (case obj_ref res of
             Inl e \<Rightarrow> (Inl e, w1)
           | Inr (typ, idx) \<Rightarrow>
               (case py_int idx of
                  Inl e \<Rightarrow> (Inl e, w1)
                | Inr i \<Rightarrow>
                    (case req env c typ ''PUT'' [(''name'', JStr dest)] JNull (Some i) None w1 of
                       (Inr r, w2) \<Rightarrow> (Inr (), w2)
                     | (Inl e, w2) \<Rightarrow>
                         if is_VolumeBackendAPIException e then
                           (case req env c typ ''DELETE'' [] JNull (Some i) None
                                   (emit (Logged ERROR
                                      ''Failed to rename the created snapshot, reverting.'') w2) of
                              (Inl e', w3) \<Rightarrow> (Inl e', w3)
                            | (Inr r, w3) \<Rightarrow> (Inl e, w3))
                         else (Inl e, w2)))))"


text \<open>\<open>add_vol_to_cg\<close>: \<^verbatim>\<open>pass\<close> in the base class, a POST in \<open>XtremIOClient4\<close>.\<close>

definition add_vol_to_cg ::
  "'s env \<Rightarrow> client \<Rightarrow> string \<Rightarrow> string \<Rightarrow> 's world \<Rightarrow> (exn + unit) \<times> 's world" where
  "add_vol_to_cg env c vol cg w =
     (case variant c of
        XtremIOClient3 \<Rightarrow> (Inr (), w)
      | XtremIOClient4 \<Rightarrow>
          (case req env c ''consistency-group-volumes'' ''POST''
                  [(''vol-id'', JStr vol), (''cg-id'', JStr cg)] JNull None (Some ''v2'') w of
             (Inl e, w1) \<Rightarrow> (Inl e, w1)
           | (Inr r, w1) \<Rightarrow> (Inr (), w1)))"


subsection \<open>The volume driver\<close>

record driver =
  driver_configuration :: configuration
  driver_cluster_id :: string
  client :: client

text \<open>\<open>XtremIOVolumeDriver.__init__\<close>: a new driver holds the legacy client.\<close>

definition XtremIOVolumeDriver_init :: "configuration \<Rightarrow> driver" where
  "XtremIOVolumeDriver_init conf =
     \<lparr>driver_configuration = conf,
      driver_cluster_id = xtremio_cluster_name conf,
      client = XtremIOClient_init XtremIOClient3 conf (JStr (xtremio_cluster_name conf))\<rparr>"





text \<open>The volume and snapshot objects of the host framework, as far as the driver reads them.\<close>

record volume =
  vol_id :: string
  vol_name_id :: string
  vol_size :: int
  vol_consistencygroup_id :: "string option"

record snapshot =
  snap_id :: string
  snap_volume_id :: string

text \<open>
  The operations of \<open>XtremIOVolumeDriver\<close> on volumes and snapshots. The driver is
  returned with the result, as \<^verbatim>\<open>self\<close> is; \<open>driver_create_snapshot\<close> is the driver's
  \<open>create_snapshot\<close>, named apart from the client's.
\<close>

definition create_volume ::
  "'s env \<Rightarrow> driver \<Rightarrow> volume \<Rightarrow> 's world \<Rightarrow> (exn + unit) \<times> (driver \<times> 's world)" where
  "create_volume env d vol w =
     (case req env (client d) ''volumes'' ''POST''
             [(''vol-name'', JStr (vol_id vol)), (''vol-size'', JStr (str_int (vol_size vol) @ ''g''))]
             JNull None None w of
        (Inl e, w1) \<Rightarrow> (Inl e, (d, w1))
      | (Inr r, w1) \<Rightarrow>
          (case vol_consistencygroup_id vol of
             None \<Rightarrow> (Inr (), (d, w1))
           | Some cg \<Rightarrow>
               if cg \<noteq> []
               then (case add_vol_to_cg env (client d) (vol_id vol) cg w1 of
                       (res, w2) \<Rightarrow> (res, (d, w2)))
               else (Inr (), (d, w1))))"

definition delete_volume ::
  "'s env \<Rightarrow> driver \<Rightarrow> volume \<Rightarrow> 's world \<Rightarrow> (exn + unit) \<times> (driver \<times> 's world)" where
  "delete_volume env d vol w =
     (case req env (client d) ''volumes'' ''DELETE'' [] (JStr (vol_name_id vol)) None None w of
        (Inl e, w1) \<Rightarrow>
          if is_NotFound e then (Inr (), (d, emit (Logged INFO ''volume %s doesn't exist'') w1))
          else (Inl e, (d, w1))
      | (Inr r, w1) \<Rightarrow> (Inr (), (d, w1)))"


definition delete_snapshot ::
  "'s env \<Rightarrow> driver \<Rightarrow> snapshot \<Rightarrow> 's world \<Rightarrow> (exn + unit) \<times> (driver \<times> 's world)" where
  "delete_snapshot env d snap w =
     (case req env (client d) ''volumes'' ''DELETE'' [] (JStr (snap_id snap)) None None w of
        (Inl e, w1) \<Rightarrow>
          if is_NotFound e then (Inr (), (d, emit (Logged INFO ''snapshot %s doesn't exist'') w1))
          else (Inl e, (d, w1))
      | (Inr r, w1) \<Rightarrow> (Inr (), (d, w1)))"

subsection \<open>LUN numbers for Fibre Channel (\<open>XtremIOFCDriver._get_free_lun\<close>)\<close>

text \<open>
  The generator \<^verbatim>\<open>lm['lun'] for lm in response['lun-maps']\<close>: a list is walked, an empty
  dict or string yields nothing, anything else is a TypeError.
\<close>

fun each_lun :: "json list \<Rightarrow> exn + json list" where
  "each_lun [] = Inr []"
| "each_lun (lm # lms) =
     (case getitem lm ''lun'' of
        Inl e \<Rightarrow> Inl e
      | Inr l \<Rightarrow> (case each_lun lms of Inl e \<Rightarrow> Inl e | Inr ls \<Rightarrow> Inr (l # ls)))"

fun iter_luns :: "json \<Rightarrow> exn + json list" where
  "iter_luns (JList lms) = each_lun lms"
| "iter_luns (JDict kvs) = (if kvs = [] then Inr [] else Inl TypeError)"
| "iter_luns (JStr s) = (if s = [] then Inr [] else Inl TypeError)"
| "iter_luns j = Inl TypeError"

text \<open>The loop over the initiator groups, collecting \<open>luns\<close>.\<close>

fun gather_luns ::
  "'s env \<Rightarrow> client \<Rightarrow> string list \<Rightarrow> 's world \<Rightarrow> (exn + json list) \<times> 's world" where
  "gather_luns env c [] w = (Inr [], w)"
| "gather_luns env c (ig # igs) w =
     (case req env c ''lun-maps'' ''GET''
             [(''full'', JInt 1), (''prop'', JStr ''lun''), (''filter'', JStr (''ig-name:eq:'' @ ig))]
             JNull None None w of
        (Inl e, w1) \<Rightarrow> (Inl e, w1)
      | (Inr r, w1) \<Rightarrow>
          (case and_then (getitem r ''lun-maps'') iter_luns of
             Inl e \<Rightarrow> (Inl e, w1)
           | Inr ls \<Rightarrow>
               (case gather_luns env c igs w1 of
                  (Inl e, w2) \<Rightarrow> (Inl e, w2)
                | (Inr more_luns, w2) \<Rightarrow> (Inr (ls @ more_luns), w2))))"

text \<open>
  Members of a Python set: lists and dicts cannot be hashed, and \<^verbatim>\<open>True\<close> and
  \<^verbatim>\<open>False\<close> are the same members as 1 and 0.
\<close>

fun hashable :: "json \<Rightarrow> bool" where
  "hashable (JList xs) = False"
| "hashable (JDict kvs) = False"
| "hashable j = True"

fun member_key :: "json \<Rightarrow> json" where
  "member_key (JBool b) = JInt (if b then 1 else 0)"
| "member_key j = j"

text \<open>
  \<^verbatim>\<open>uniq_luns = set(luns + [0]); seq = range(len(uniq_luns) + 1);
  return min(set(seq) - uniq_luns)\<close>; \<^verbatim>\<open>min\<close> of an empty set would be a ValueError.
\<close>

definition lowest_free :: "json list \<Rightarrow> exn + int" where
  "lowest_free luns =
     (if \<not> list_all hashable luns then Inl TypeError
      else
        (let uniq_luns = set (map member_key (luns @ [JInt 0]));
             seq = map int [0 ..< card uniq_luns + 1];
             free = filter (\<lambda>i. JInt i \<notin> uniq_luns) seq
         in if free = [] then Inl ValueError else Inr (Min (set free))))"

definition get_free_lun ::
  "'s env \<Rightarrow> client \<Rightarrow> string list \<Rightarrow> 's world \<Rightarrow> (exn + int) \<times> 's world" where
  "get_free_lun env c igs w =
     (case gather_luns env c igs w of
        (Inl e, w1) \<Rightarrow> (Inl e, w1)
      | (Inr luns, w1) \<Rightarrow> (lowest_free luns, w1))"

text \<open>The LUN numbers among collected values, as set membership sees them.\<close>

definition lun_numbers :: "json list \<Rightarrow> int set" where
  "lun_numbers luns = {i. JInt i \<in> member_key ` set luns}"

section \<open>The Unity client (\<^verbatim>\<open>unity/client.py\<close>)\<close>

text \<open>
  The errors of the \<^verbatim>\<open>storops\<close> library that the client names, any other error of
  the library, and the AttributeError of calling a method on \<^verbatim>\<open>None\<close>.
\<close>

datatype uexn =
    UnityLunNameInUseError
  | UnitySnapNameInUseError
  | UnityResourceNotFoundError
  | UnityDeleteAttachedSnapError
  | UnityOtherError string
  | NoneTypeAttributeError

text \<open>
  The \<^verbatim>\<open>storops\<close> calls the client makes. The library and the array behind it are not
  part of the driver: each call is a function on the array state \<open>'u\<close> that returns a
  result or raises.
\<close>

record ('u, 'pool, 'lun, 'snap) storops =
  pool_create_lun ::
    "'pool \<Rightarrow> string \<Rightarrow> int \<Rightarrow> string option \<Rightarrow> string option \<Rightarrow> 'u \<Rightarrow> (uexn + 'lun) \<times> 'u"
  system_get_lun :: "string option \<Rightarrow> string option \<Rightarrow> 'u \<Rightarrow> (uexn + 'lun) \<times> 'u"
  lun_delete :: "'lun \<Rightarrow> 'u \<Rightarrow> (uexn + unit) \<times> 'u"
  lun_create_snap :: "'lun \<Rightarrow> string option \<Rightarrow> bool \<Rightarrow> 'u \<Rightarrow> (uexn + 'snap) \<times> 'u"
  system_get_snap :: "string option \<Rightarrow> 'u \<Rightarrow> (uexn + 'snap) \<times> 'u"
  snap_delete :: "'snap \<Rightarrow> 'u \<Rightarrow> (uexn + unit) \<times> 'u"

datatype uevent = Called string | ULogged level string

record 'u uworld =
  uarray :: 'u
  utrace :: "uevent list"

definition ulog :: "level \<Rightarrow> string \<Rightarrow> 'u uworld \<Rightarrow> 'u uworld" where
  "ulog lv msg w = w\<lparr>utrace := utrace w @ [ULogged lv msg]\<rparr>"

text \<open>One call into the library, recorded in the trace.\<close>

definition call ::
  "string \<Rightarrow> ('u \<Rightarrow> (uexn + 'a) \<times> 'u) \<Rightarrow> 'u uworld \<Rightarrow> (uexn + 'a) \<times> 'u uworld" where
  "call what op w =
     (case op (uarray w) of (r, u') \<Rightarrow> (r, w\<lparr>uarray := u', utrace := utrace w @ [Called what]\<rparr>))"

definition calls :: "'u uworld \<Rightarrow> string list" where
  "calls w = concat (map (\<lambda>e. case e of Called c \<Rightarrow> [c] | _ \<Rightarrow> []) (utrace w))"

definition ulogged :: "'u uworld \<Rightarrow> (level \<times> string) list" where
  "ulogged w = concat (map (\<lambda>e. case e of ULogged lv m \<Rightarrow> [(lv, m)] | _ \<Rightarrow> []) (utrace w))"

definition unity_create_lun ::
  "('u, 'pool, 'lun, 'snap) storops \<Rightarrow> string \<Rightarrow> int \<Rightarrow> 'pool \<Rightarrow> string option \<Rightarrow> string option \<Rightarrow>
   'u uworld \<Rightarrow> (uexn + 'lun) \<times> 'u uworld" where
  "unity_create_lun sdk name size_gb pool description io_limit_policy w =
     (case call ''pool.create_lun''
             (pool_create_lun sdk pool name size_gb description io_limit_policy) w of
        (Inl UnityLunNameInUseError, w1) \<Rightarrow>
          call ''system.get_lun'' (system_get_lun sdk None (Some name))
            (ulog DEBUG ''LUN %s already exists. Return the existing one.'' w1)
      | (Inl e, w1) \<Rightarrow> (Inl e, w1)
      | (Inr lun, w1) \<Rightarrow> (Inr lun, w1))"

definition unity_delete_lun ::
  "('u, 'pool, 'lun, 'snap) storops \<Rightarrow> string \<Rightarrow> 'u uworld \<Rightarrow> (uexn + unit) \<times> 'u uworld" where
  "unity_delete_lun sdk lun_id w =
     (case call ''system.get_lun'' (system_get_lun sdk (Some lun_id) None) w of
        (Inl UnityResourceNotFoundError, w1) \<Rightarrow>
          (Inr (), ulog DEBUG ''LUN %s doesn't exist. Deletion is not needed.'' w1)
      | (Inl e, w1) \<Rightarrow> (Inl e, w1)
      | (Inr lun, w1) \<Rightarrow>
          (case call ''lun.delete'' (lun_delete sdk lun) w1 of
             (Inl UnityResourceNotFoundError, w2) \<Rightarrow>
               (Inr (), ulog DEBUG ''LUN %s doesn't exist. Deletion is not needed.'' w2)
           | (Inl e, w2) \<Rightarrow> (Inl e, w2)
           | (Inr u, w2) \<Rightarrow> (Inr (), w2)))"

text \<open>\<open>get_lun\<close> and \<open>get_snap\<close> return \<^verbatim>\<open>None\<close> for a resource the array does not have.\<close>

definition unity_get_lun ::
  "('u, 'pool, 'lun, 'snap) storops \<Rightarrow> string option \<Rightarrow> string option \<Rightarrow>
   'u uworld \<Rightarrow> (uexn + 'lun option) \<times> 'u uworld" where
  "unity_get_lun sdk lun_id name w =
     (if lun_id = None \<and> name = None then
        (Inr None, ulog WARNING ''Both lun_id and name are None to get LUN. Return None.'' w)
      else
        (case call ''system.get_lun'' (system_get_lun sdk lun_id name) w of
           (Inl UnityResourceNotFoundError, w1) \<Rightarrow>
             (Inr None, ulog WARNING ''LUN id=%(id)s, name=%(name)s doesn't exist.'' w1)
         | (Inl e, w1) \<Rightarrow> (Inl e, w1)
         | (Inr lun, w1) \<Rightarrow> (Inr (Some lun), w1)))"

definition unity_get_snap ::
  "('u, 'pool, 'lun, 'snap) storops \<Rightarrow> string option \<Rightarrow>
   'u uworld \<Rightarrow> (uexn + 'snap option) \<times> 'u uworld" where
  "unity_get_snap sdk name w =
     (case call ''system.get_snap'' (system_get_snap sdk name) w of
        (Inl UnityResourceNotFoundError, w1) \<Rightarrow>
          (Inr None, ulog WARNING ''Snapshot %(name)s doesn't exist. Message: %(err)s'' w1)
      | (Inl e, w1) \<Rightarrow> (Inl e, w1)
      | (Inr snap, w1) \<Rightarrow> (Inr (Some snap), w1))"

text \<open>
  \<open>create_snap\<close>: both the lookup of the source LUN and the creation are inside the
  \<^verbatim>\<open>try\<close>; only \<open>UnitySnapNameInUseError\<close> is caught.
\<close>

definition create_snap_attempt ::
  "('u, 'pool, 'lun, 'snap) storops \<Rightarrow> string \<Rightarrow> string option \<Rightarrow>
   'u uworld \<Rightarrow> (uexn + 'snap option) \<times> 'u uworld" where
  "create_snap_attempt sdk src_lun_id name w =
     (case unity_get_lun sdk (Some src_lun_id) None w of
        (Inl e, w1) \<Rightarrow> (Inl e, w1)
      | (Inr None, w1) \<Rightarrow> (Inl NoneTypeAttributeError, w1)
      | (Inr (Some lun), w1) \<Rightarrow>
          (case call ''lun.create_snap'' (lun_create_snap sdk lun name False) w1 of
             (Inl e, w2) \<Rightarrow> (Inl e, w2)
           | (Inr snap, w2) \<Rightarrow> (Inr (Some snap), w2)))"

definition unity_create_snap ::
  "('u, 'pool, 'lun, 'snap) storops \<Rightarrow> string \<Rightarrow> string option \<Rightarrow>
   'u uworld \<Rightarrow> (uexn + 'snap option) \<times> 'u uworld" where
  "unity_create_snap sdk src_lun_id name w =
     (case create_snap_attempt sdk src_lun_id name w of
        (Inl UnitySnapNameInUseError, w1) \<Rightarrow>
          unity_get_snap sdk name
            (ulog DEBUG (''Snap %(snap_name)s already exists on LUN %(lun_id)s. ''
                         @ ''Return the existing one. Message: %(err)s'') w1)
      | (Inl e, w1) \<Rightarrow> (Inl e, w1)
      | (Inr snap, w1) \<Rightarrow> (Inr snap, w1))"

text \<open>\<open>delete_snap\<close>: a static method; \<open>None\<close> is the caller's "no snapshot".\<close>

definition unity_delete_snap ::
  "('u, 'pool, 'lun, 'snap) storops \<Rightarrow> 'snap option \<Rightarrow> 'u uworld \<Rightarrow> (uexn + unit) \<times> 'u uworld" where
  "unity_delete_snap sdk snap w =
     (case snap of
        None \<Rightarrow> (Inr (), ulog DEBUG ''Snap to delete is None, skipping deletion.'' w)
      | Some s \<Rightarrow>
          (case call ''snap.delete'' (snap_delete sdk s) w of
             (Inl UnityResourceNotFoundError, w1) \<Rightarrow>
               (Inr (), ulog DEBUG ''Snap %(snap_name)s may be deleted already. Message: %(err)s'' w1)
           | (Inl UnityDeleteAttachedSnapError, w1) \<Rightarrow>
               (Inl UnityDeleteAttachedSnapError,
                ulog WARNING (''Failed to delete snapshot %(snap_name)s ''
                              @ ''which is in use. Message: %(err)s'') w1)
           | (Inl e, w1) \<Rightarrow> (Inl e, w1)
           | (Inr u, w1) \<Rightarrow> (Inr (), w1)))"

section \<open>Test doubles\<close>

text \<open>
  An array that answers from a script, one reply per request, and fails the connection
  when the script has run out; the clients and replies used in the examples.
\<close>

fun scripted :: "reply list transport" where
  "scripted r [] = (RequestException ''connection refused'', [])"
| "scripted r (x # xs) = (x, xs)"

definition start :: "reply list \<Rightarrow> reply list world" where
  "start script = \<lparr>array = script, events = []\<rparr>"

definition ok :: "json \<Rightarrow> reply" where
  "ok j = Response \<lparr>status_code = 200, text_of = ''(json)'', json_body = Some j\<rparr>"

definition refuse :: "string \<Rightarrow> reply" where
  "refuse token =
     Response \<lparr>status_code = 400, text_of = ''(json)'',
               json_body = Some (JDict [(''message'', JStr token)])\<rparr>"

definition xms_conf :: configuration where
  "xms_conf = default_configuration ''xms'' ''admin'' ''secret''"

definition xms :: "reply list env" where
  "xms = \<lparr>transport = scripted, CONF = xms_conf\<rparr>"

definition legacy_client :: client where
  "legacy_client = XtremIOClient_init XtremIOClient3 xms_conf (JStr [])"

definition current_client :: client where
  "current_client = XtremIOClient_init XtremIOClient4 xms_conf (JStr [])"

text \<open>
  A Unity array that keeps LUNs and snapshots by name: a LUN or snapshot is its name, a
  second creation under a name in use is refused, and a snapshot is attached or not.
\<close>

record unity =
  luns_of :: "string list"
  snaps_of :: "(string \<times> bool) list"

definition toy_storops :: "(unity, unit, string, string) storops" where
  "toy_storops =
     \<lparr>pool_create_lun = (\<lambda>pool name size_gb description policy u.
         if name \<in> set (luns_of u) then (Inl UnityLunNameInUseError, u)
         else (Inr name, u\<lparr>luns_of := luns_of u @ [name]\<rparr>)),
      system_get_lun = (\<lambda>lun_id name u.
         case (case name of Some n \<Rightarrow> Some n | None \<Rightarrow> lun_id) of
           None \<Rightarrow> (Inl (UnityOtherError ''no key''), u)
         | Some n \<Rightarrow> (if n \<in> set (luns_of u) then (Inr n, u)
                      else (Inl UnityResourceNotFoundError, u))),
      lun_delete = (\<lambda>lun u.
         if lun \<in> set (luns_of u) then (Inr (), u\<lparr>luns_of := removeAll lun (luns_of u)\<rparr>)
         else (Inl UnityResourceNotFoundError, u)),
      lun_create_snap = (\<lambda>lun name auto_delete u.
         case name of
           None \<Rightarrow> (Inl (UnityOtherError ''no name''), u)
         | Some n \<Rightarrow> (if n \<in> fst ` set (snaps_of u) then (Inl UnitySnapNameInUseError, u)
                      else (Inr n, u\<lparr>snaps_of := snaps_of u @ [(n, False)]\<rparr>))),
      system_get_snap = (\<lambda>name u.
         case name of
           None \<Rightarrow> (Inl (UnityOtherError ''no name''), u)
         | Some n \<Rightarrow> (if n \<in> fst ` set (snaps_of u) then (Inr n, u)
                      else (Inl UnityResourceNotFoundError, u))),
      snap_delete = (\<lambda>snap u.
         case map_of (snaps_of u) snap of
           None \<Rightarrow> (Inl UnityResourceNotFoundError, u)
         | Some attached \<Rightarrow>
             (if attached then (Inl UnityDeleteAttachedSnapError, u)
              else (Inr (), u\<lparr>snaps_of := filter (\<lambda>p. fst p \<noteq> snap) (snaps_of u)\<rparr>)))\<rparr>"

definition ustart :: "unity \<Rightarrow> unity uworld" where
  "ustart u = \<lparr>uarray = u, utrace = []\<rparr>"

definition legacy_driver :: driver where
  "legacy_driver = XtremIOVolumeDriver_init xms_conf"

definition vol1 :: volume where
  "vol1 = \<lparr>vol_id = ''vol-1'', vol_name_id = ''vol-1'', vol_size = 10,
           vol_consistencygroup_id = None\<rparr>"

definition snap1 :: snapshot where
  "snap1 = \<lparr>snap_id = ''snap-1'', snap_volume_id = ''vol-1''\<rparr>"

text \<open>The same array when another client deletes every LUN between lookup and delete.\<close>

definition racing_storops :: "(unity, unit, string, string) storops" where
  "racing_storops =
     toy_storops\<lparr>system_get_lun := (\<lambda>lun_id name u. (Inr ''lun-1'', u)),
                 lun_delete := (\<lambda>lun u. (Inl UnityResourceNotFoundError, u))\<rparr>"

text \<open>The array's answer to a creation: a link to the new object.\<close>

definition created_at :: "string \<Rightarrow> reply" where
  "created_at href = ok (JDict [(''links'', JList [JDict [(''href'', JStr href)]])])"



section \<open>Notions used to state the properties\<close>

text \<open>
  The state in which attempt number \<open>k + 1\<close> of a retried call starts, when every attempt
  before it was followed by a pause; and that the first \<open>k\<close> attempts all failed with a
  retryable error.
\<close>

primrec attempt_state ::
  "('st \<Rightarrow> 'st) \<Rightarrow> ('st \<Rightarrow> (exn + 'a) \<times> 'st) \<Rightarrow> nat \<Rightarrow> 'st \<Rightarrow> 'st" where
  "attempt_state pause f 0 st = st"
| "attempt_state pause f (Suc k) st = attempt_state pause f k (pause (snd (f st)))"

primrec busy_attempts ::
  "(exn \<Rightarrow> bool) \<Rightarrow> ('st \<Rightarrow> 'st) \<Rightarrow> ('st \<Rightarrow> (exn + 'a) \<times> 'st) \<Rightarrow> nat \<Rightarrow> 'st \<Rightarrow> bool" where
  "busy_attempts retryable pause f 0 st = True"
| "busy_attempts retryable pause f (Suc k) st =
     (case f st of
        (Inl e, st') \<Rightarrow> retryable e \<and> busy_attempts retryable pause f k (pause st')
      | (Inr v, st') \<Rightarrow> False)"

text \<open>A result that ends the retrying: a value, or an error that is not retryable.\<close>

definition final :: "(exn \<Rightarrow> bool) \<Rightarrow> exn + 'a \<Rightarrow> bool" where
  "final retryable res = (case res of Inl e \<Rightarrow> \<not> retryable e | Inr v \<Rightarrow> True)"

text \<open>
  The error kinds of the spec's taxonomy, and the kind each exception of
  \<open>handle_errors\<close> stands for; an exception outside the taxonomy has no kind.
\<close>

datatype error_kind =
    KindNotFound
  | KindDuplicateName
  | KindAlreadyAttached
  | KindArrayBusy
  | KindResourceLimitExceeded
  | KindUnknown string

fun kind_of :: "exn \<Rightarrow> error_kind option" where
  "kind_of NotFound = Some KindNotFound"
| "kind_of (VolumeNotFound k) = Some KindNotFound"
| "kind_of (VolumeBackendAPIException (Data m)) =
     (if m = ''Volume by this name already exists'' then Some KindDuplicateName else None)"
| "kind_of (VolumeBackendAPIException (Message m)) = Some (KindUnknown m)"
| "kind_of XtremIOAlreadyMappedError = Some KindAlreadyAttached"
| "kind_of XtremIOArrayBusy = Some KindArrayBusy"
| "kind_of XtremIOSnapshotsLimitExceeded = Some KindResourceLimitExceeded"
| "kind_of e = None"

text \<open>
  For one call of \<open>req\<close>: that its first \<open>k\<close> attempts all met a busy array, and the
  outcome of attempt \<open>k + 1\<close> after them.
\<close>

definition req_busy ::
  "'s env \<Rightarrow> client \<Rightarrow> string \<Rightarrow> string \<Rightarrow> json \<Rightarrow> int option \<Rightarrow> string \<Rightarrow> nat \<Rightarrow>
   dict \<Rightarrow> 's world \<Rightarrow> bool" where
  "req_busy env c object_type method name idx ver k data w =
     busy_attempts is_XtremIOArrayBusy
       (sleep (xtremio_array_busy_retry_interval (CONF env)))
       (req_body env c object_type method name idx ver) k (data, w)"

definition req_attempt ::
  "'s env \<Rightarrow> client \<Rightarrow> string \<Rightarrow> string \<Rightarrow> json \<Rightarrow> int option \<Rightarrow> string \<Rightarrow> nat \<Rightarrow>
   dict \<Rightarrow> 's world \<Rightarrow> (exn + json) \<times> (dict \<times> 's world)" where
  "req_attempt env c object_type method name idx ver k data w =
     req_body env c object_type method name idx ver
       (attempt_state (sleep (xtremio_array_busy_retry_interval (CONF env)))
          (req_body env c object_type method name idx ver) k (data, w))"

text \<open>What \<open>req\<close> returns for a response with a status in [200, 300).\<close>

definition returned_body :: "string \<Rightarrow> response \<Rightarrow> exn + json" where
  "returned_body method resp =
     (if method \<in> set [''GET'', ''POST'']
      then (case json_body resp of None \<Rightarrow> Inl ValueError | Some j \<Rightarrow> Inr j)
      else Inr (JStr []))"

text \<open>
  The two ways a request can identify its resource: a \<^verbatim>\<open>name\<close> query parameter, or the
  index appended to the URL of the collection.
\<close>

definition collection_url :: "client \<Rightarrow> string \<Rightarrow> string \<Rightarrow> string" where
  "collection_url c object_type ver =
     (case get_base_url c ver of None \<Rightarrow> ''None'' | Some b \<Rightarrow> b) @ ''/'' @ object_type"

text \<open>
  That the caller's \<open>data\<close> would itself put a \<^verbatim>\<open>name\<close> into the query: for GET and
  DELETE the query is updated from \<open>data\<close>.
\<close>

definition own_name_key :: "string \<Rightarrow> dict \<Rightarrow> bool" where
  "own_name_key method data =
     (method \<in> set [''GET'', ''DELETE''] \<and> ''name'' \<in> fst ` set data)"

definition name_in_query :: "request \<Rightarrow> bool" where
  "name_in_query r = (''name'' \<in> fst ` set (r_params r))"

definition index_in_path :: "client \<Rightarrow> string \<Rightarrow> string \<Rightarrow> int option \<Rightarrow> request \<Rightarrow> bool" where
  "index_in_path c object_type ver idx r =
     (case idx of
        Some i \<Rightarrow> i \<noteq> 0 \<and> r_url r = collection_url c object_type ver @ ''/'' @ str_int i
      | None \<Rightarrow> False)"

section \<open>Basic facts\<close>

subsection \<open>Events\<close>

lemma array_emit [simp]: "array (emit e w) = array w"
  by (simp add: emit_def)

lemma events_emit [simp]: "events (emit e w) = events w @ [e]"
  by (simp add: emit_def)

lemma sent_emit [simp]:
  "sent (emit e w) = sent w @ (case e of Sent r \<Rightarrow> [r] | _ \<Rightarrow> [])"
  by (simp add: sent_def)

lemma slept_emit [simp]:
  "slept (emit e w) = slept w @ (case e of Slept n \<Rightarrow> [n] | _ \<Rightarrow> [])"
  by (simp add: slept_def)

lemma classified_emit [simp]:
  "classified (emit e w) = classified w @ (case e of Classify r \<Rightarrow> [r] | _ \<Rightarrow> [])"
  by (simp add: classified_def)

lemma sent_array_update [simp]: "sent (w\<lparr>array := a\<rparr>) = sent w"
  by (simp add: sent_def)

lemma slept_array_update [simp]: "slept (w\<lparr>array := a\<rparr>) = slept w"
  by (simp add: slept_def)

lemma classified_array_update [simp]: "classified (w\<lparr>array := a\<rparr>) = classified w"
  by (simp add: classified_def)

subsection \<open>The lowest free LUN number\<close>

text \<open>
  Among \<open>n + 1\<close> consecutive candidates, a set of \<open>n\<close> members cannot hold them all.
\<close>

lemma free_exists:
  fixes U :: "json set"
  assumes "finite U"
  shows "filter (\<lambda>i. JInt i \<notin> U) (map int [0 ..< card U + 1]) \<noteq> []"
proof
  assume "filter (\<lambda>i. JInt i \<notin> U) (map int [0 ..< card U + 1]) = []"
  then have all: "\<forall>n < card U + 1. JInt (int n) \<in> U"
    by (auto simp: filter_empty_conv simp del: upt_Suc)
  have inj: "inj_on (\<lambda>n. JInt (int n)) {..< card U + 1}"
    by (auto simp: inj_on_def)
  have "(\<lambda>n. JInt (int n)) ` {..< card U + 1} \<subseteq> U"
    using all by auto
  then have "card ((\<lambda>n. JInt (int n)) ` {..< card U + 1}) \<le> card U"
    using assms card_mono by blast
  then show False
    using inj by (simp add: card_image)
qed

lemma lowest_free_props:
  assumes "list_all hashable luns"
  shows "\<exists>r. lowest_free luns = Inr r \<and> 0 < r \<and> r \<notin> lun_numbers luns
           \<and> (\<forall>k. 0 < k \<and> k < r \<longrightarrow> k \<in> lun_numbers luns)"
proof -
  define U where "U = set (map member_key (luns @ [JInt 0]))"
  define seq where "seq = map int [0 ..< card U + 1]"
  define free where "free = filter (\<lambda>i. JInt i \<notin> U) seq"
  define r where "r = Min (set free)"
  have fin: "finite U" by (simp add: U_def)
  have ne: "free \<noteq> []"
    unfolding free_def seq_def using free_exists [OF fin] .
  have res: "lowest_free luns = Inr r"
    using assms ne unfolding lowest_free_def Let_def U_def seq_def free_def r_def
    by (simp del: upt_Suc)
  have rin: "r \<in> set free"
    unfolding r_def using ne by simp
  then have r_seq: "r \<in> set seq" and r_U: "JInt r \<notin> U"
    by (auto simp: free_def)
  have zero: "JInt 0 \<in> U" by (simp add: U_def)
  have r_nonneg: "0 \<le> r" using r_seq by (auto simp: seq_def)
  have r_ne: "r \<noteq> 0" using r_U zero by auto
  have sub: "lun_numbers luns \<subseteq> {i. JInt i \<in> U}"
    by (auto simp: lun_numbers_def U_def)
  have below: "k \<in> lun_numbers luns" if "0 < k" "k < r" for k
  proof (rule ccontr)
    assume notin: "k \<notin> lun_numbers luns"
    have "JInt k \<notin> U"
      using notin that(1) by (auto simp: lun_numbers_def U_def)
    moreover have "k \<in> set seq"
    proof -
      obtain n where n: "r = int n" "n < card U + 1" using r_seq by (auto simp: seq_def)
      have "k = int (nat k)" "nat k < card U + 1" using that n by auto
      then show ?thesis
        unfolding seq_def by (metis atLeast0LessThan imageI lessThan_iff set_map set_upt)
    qed
    ultimately have "k \<in> set free" by (simp add: free_def)
    then have "r \<le> k" unfolding r_def by simp
    with that(2) show False by simp
  qed
  show ?thesis
    using res r_nonneg r_ne r_U sub below by (intro exI [of _ r]) auto
qed


subsection \<open>The retry loop\<close>

lemma retry_loop_final:
  "final retryable (fst (f st)) \<Longrightarrow> retry_loop retryable pause n f st = f st"
  by (cases n; cases "f st") (auto simp: final_def split: sum.splits)

lemma retry_loop_skip:
  "busy_attempts retryable pause f k st \<Longrightarrow>
   retry_loop retryable pause (k + n) f st
     = retry_loop retryable pause n f (attempt_state pause f k st)"
proof (induction k arbitrary: st)
  case 0
  then show ?case by simp
next
  case (Suc k)
  then show ?case by (cases "f st") (auto split: sum.splits)
qed

lemma retry_loop_after:
  assumes "busy_attempts retryable pause f k st" and "k \<le> n"
    and "final retryable (fst (f (attempt_state pause f k st)))"
  shows "retry_loop retryable pause n f st = f (attempt_state pause f k st)"
proof -
  from assms(2) obtain m where n: "n = k + m" using le_Suc_ex by blast
  show ?thesis unfolding n
    using retry_loop_skip [OF assms(1), of m]
      retry_loop_final [of retryable f "attempt_state pause f k st" pause m] assms(3) by simp
qed



subsection \<open>One attempt\<close>

lemma classify_message_frame:
  "classify_message m key w = (r, w') \<Longrightarrow>
   sent w' = sent w \<and> slept w' = slept w \<and> classified w' = classified w \<and> array w' = array w"
  by (auto simp: classify_message_def split: if_splits)

lemma bad_response_frame:
  "bad_response resp w = (e, w') \<Longrightarrow>
   sent w' = sent w \<and> slept w' = slept w \<and> classified w' = classified w \<and> array w' = array w"
  by (auto simp: bad_response_def Let_def)

lemma handle_errors_frame:
  assumes "handle_errors resp key ot w = (e, w')"
  shows "sent w' = sent w \<and> slept w' = slept w \<and> classified w' = classified w @ [resp]
         \<and> array w' = array w"
  using assms
  by (auto simp: handle_errors_def Let_def
      split: if_splits option.splits json.splits prod.splits
      dest!: classify_message_frame bad_response_frame)

lemma requests_request_frame:
  "requests_request send r w = (rep, w') \<Longrightarrow>
   (rep, array w') = send r (array w) \<and> sent w' = sent w @ [r] \<and> slept w' = slept w
   \<and> classified w' = classified w"
  by (auto simp: requests_request_def split: prod.splits)

lemma req_body_both_given:
  "both_given name idx \<Longrightarrow>
   req_body env c ot m name idx ver (data, w) =
     (Inl (VolumeDriverException ''can't handle both name and index in req''),
      (data, emit (Logged ERROR ''can't handle both name and index in req'') w))"
  by (simp add: req_body_def)

lemma req_body_frame:
  assumes "req_body env c ot m name idx ver (data, w) = (res, (data', w'))"
  shows "slept w' = slept w"
    and "sent w' = sent w @ (if both_given name idx then []
                              else [build_request c ot m data name idx ver])"
    and "data' = data \<or> data' = req_data c m data"
  using assms
  by (auto simp: req_body_def Let_def build_request_def
      split: if_splits prod.splits reply.splits option.splits
      dest!: requests_request_frame handle_errors_frame)

lemma req_body_busy_not_both:
  "fst (req_body env c ot m name idx ver (data, w)) = Inl e \<Longrightarrow> is_XtremIOArrayBusy e \<Longrightarrow>
   \<not> both_given name idx"
  by (auto simp: req_body_both_given)

lemma req_body_success:
  assumes "\<not> both_given name idx"
    and "transport env (build_request c ot m data name idx ver) (array w) = (Response resp, a')"
    and "200 \<le> status_code resp" and "status_code resp < 300"
  shows "\<exists>d' w'. req_body env c ot m name idx ver (data, w)
                 = (returned_body m resp, (d', w'))
              \<and> classified w' = classified w
              \<and> sent w' = sent w @ [build_request c ot m data name idx ver]
              \<and> slept w' = slept w \<and> array w' = a'"
  using assms
  by (auto simp: req_body_def Let_def returned_body_def requests_request_def build_request_def
      split: option.splits)

lemma returned_body_final: "final is_XtremIOArrayBusy (returned_body m resp)"
  by (auto simp: final_def returned_body_def split: option.splits)

subsection \<open>Retried attempts of one call\<close>

lemma sleep_pair [simp]: "sleep iv (d, w) = (d, emit (Slept iv) w)"
  by (simp add: sleep_def)

lemma attempt_state_req:
  assumes "busy_attempts is_XtremIOArrayBusy (sleep iv) (req_body env c ot m name idx ver) k (d, w)"
    and "attempt_state (sleep iv) (req_body env c ot m name idx ver) k (d, w) = (dk, wk)"
  shows "slept wk = slept w @ replicate k iv \<and> length (sent wk) = length (sent w) + k"
  using assms
proof (induction k arbitrary: d w)
  case 0
  then show ?case by simp
next
  case (Suc k)
  obtain res d1 w1 where f: "req_body env c ot m name idx ver (d, w) = (res, (d1, w1))"
    by (metis surj_pair)
  from Suc.prems(1) f obtain e where e: "res = Inl e" "is_XtremIOArrayBusy e"
    and busy: "busy_attempts is_XtremIOArrayBusy (sleep iv) (req_body env c ot m name idx ver) k
                 (d1, emit (Slept iv) w1)"
    by (auto split: sum.splits)
  have nb: "\<not> both_given name idx"
    using req_body_busy_not_both [of env c ot m name idx ver d w e] f e by simp
  have st: "attempt_state (sleep iv) (req_body env c ot m name idx ver) k (d1, emit (Slept iv) w1)
            = (dk, wk)"
    using Suc.prems(2) f by simp
  from Suc.IH [OF busy st] req_body_frame(1,2) [OF f] nb
  show ?case by (simp add: replicate_append_same)
qed

lemma XtremIOClient_req_eq:
  assumes "retry_loop is_XtremIOArrayBusy
             (sleep (xtremio_array_busy_retry_interval (CONF env)))
             (xtremio_array_busy_retry_count (CONF env) - 1)
             (req_body env c ot m name idx ver) (data, w) = (res, (d', w'))"
  shows "XtremIOClient_req env c ot m data name idx ver w = (res, w')"
  using assms by (simp add: XtremIOClient_req_def retry_def)

lemma req_after_busy:
  assumes k: "k < xtremio_array_busy_retry_count (CONF env)"
    and busy: "req_busy env c ot m name idx ver k data w"
    and att: "req_attempt env c ot m name idx ver k data w = (res, (d', w'))"
    and fin: "final is_XtremIOArrayBusy res"
  shows "XtremIOClient_req env c ot m data name idx ver w = (res, w')
         \<and> slept w' = slept w @ replicate k (xtremio_array_busy_retry_interval (CONF env))
         \<and> length (sent w')
             = length (sent w) + k + (if both_given name idx then 0 else 1)"
proof -
  let ?iv = "xtremio_array_busy_retry_interval (CONF env)"
  let ?f = "req_body env c ot m name idx ver"
  obtain dk wk where st: "attempt_state (sleep ?iv) ?f k (data, w) = (dk, wk)"
    by (metis surj_pair)
  have b: "busy_attempts is_XtremIOArrayBusy (sleep ?iv) ?f k (data, w)"
    using busy by (simp add: req_busy_def)
  have a: "?f (dk, wk) = (res, (d', w'))"
    using att st by (simp add: req_attempt_def)
  have "retry_loop is_XtremIOArrayBusy (sleep ?iv)
          (xtremio_array_busy_retry_count (CONF env) - 1) ?f (data, w) = (res, (d', w'))"
    using retry_loop_after [OF b, of "xtremio_array_busy_retry_count (CONF env) - 1"]
      k fin a st by simp
  then have r: "XtremIOClient_req env c ot m data name idx ver w = (res, w')"
    by (rule XtremIOClient_req_eq)
  from attempt_state_req [OF b st] req_body_frame(1,2) [OF a] r
  show ?thesis by simp
qed


subsection \<open>Vendor tokens\<close>



lemma handle_errors_not_found:
  assumes "status_code resp = 400" and "json_body resp = Some (JDict error)"
    and "map_of error ''message'' = Some (JStr msg)" and "suffix OBJ_NOT_FOUND_ERR msg"
  shows "fst (handle_errors resp key ot w) = NotFound"
  using assms
  by (simp add: handle_errors_def Let_def classify_message_def)

subsection \<open>The requests of one call\<close>

lemma keys_dict_set: "fst ` set (dict_set d k v) = insert k (fst ` set d)"
  by (simp add: dict_set_def dom_update)

lemma keys_dict_update: "fst ` set (dict_update d other) = fst ` set d \<union> fst ` set other"
  unfolding dict_update_def
  by (induction other arbitrary: d) (auto simp: keys_dict_set)

lemma keys_update_url: "fst ` set (update_url c d cid) \<subseteq> insert ''cluster-name'' (fst ` set d)"
  by (auto simp: update_url_def keys_dict_set split: variant.splits)

lemma keys_update_url_sup: "fst ` set d \<subseteq> fst ` set (update_url c d cid)"
  by (auto simp: update_url_def keys_dict_set split: variant.splits)

lemma keys_req_data: "fst ` set (req_data c m d) \<subseteq> insert ''cluster-id'' (fst ` set d)"
  by (auto simp: req_data_def update_data_def keys_dict_set split: variant.splits)

lemma no_name_req_data: "\<not> own_name_key m d \<Longrightarrow> \<not> own_name_key m (req_data c m d)"
  using keys_req_data [of c m d] by (auto simp: own_name_key_def)

lemma build_request_name:
  assumes "\<not> own_name_key m d"
  shows "name_in_query (build_request c ot m d name idx ver) = truthy name"
proof (cases "m \<in> set [''GET'', ''DELETE'']")
  case True
  then have d: "''name'' \<notin> fst ` set d"
    using assms by (simp add: own_name_key_def)
  have "''name'' \<in> fst ` set (update_url c (dict_update ps d) cid) \<longleftrightarrow> ''name'' \<in> fst ` set ps"
    for ps cid
    using keys_update_url [of c "dict_update ps d" cid] keys_update_url_sup [of "dict_update ps d" c cid]
      d by (auto simp: keys_dict_update)
  then show ?thesis
    using True by (auto simp: name_in_query_def build_request_def req_params_def Let_def)
next
  case False
  then show ?thesis
    by (auto simp: name_in_query_def build_request_def req_params_def Let_def)
qed

lemma build_request_index:
  assumes "\<not> both_given name idx"
  shows "index_in_path c ot ver idx (build_request c ot m d name idx ver)
         = (\<not> truthy name \<and> idx \<noteq> None \<and> idx \<noteq> Some 0)"
  using assms
  by (auto simp: index_in_path_def build_request_def req_url_def collection_url_def Let_def
      both_given_def split: option.splits)

lemma retry_loop_sent:
  assumes "retry_loop is_XtremIOArrayBusy (sleep iv) n (req_body env c ot m name idx ver) (d, w)
           = (res, (d', w'))"
    and "\<not> own_name_key m d"
  shows "\<exists>rs. sent w' = sent w @ rs
           \<and> (\<forall>r \<in> set rs. \<not> both_given name idx
                 \<and> (\<exists>x. \<not> own_name_key m x \<and> r = build_request c ot m x name idx ver))"
  using assms
proof (induction n arbitrary: d w)
  case 0
  then have f: "req_body env c ot m name idx ver (d, w) = (res, (d', w'))" by simp
  show ?case using req_body_frame(2) [OF f] "0.prems"(2) by auto
next
  case (Suc n)
  obtain r1 d1 w1 where f: "req_body env c ot m name idx ver (d, w) = (r1, (d1, w1))"
    by (metis surj_pair)
  note fr = req_body_frame [OF f]
  show ?case
  proof (cases "final is_XtremIOArrayBusy r1")
    case True
    with Suc.prems(1) f have "w' = w1"
      by (auto simp: final_def split: sum.splits)
    then show ?thesis using fr(2) Suc.prems(2) by auto
  next
    case False
    then obtain e where e: "r1 = Inl e" "is_XtremIOArrayBusy e"
      by (auto simp: final_def split: sum.splits)
    have nb: "\<not> both_given name idx"
      using req_body_busy_not_both [of env c ot m name idx ver d w e] f e by simp
    have next_call: "retry_loop is_XtremIOArrayBusy (sleep iv) n (req_body env c ot m name idx ver)
                 (d1, emit (Slept iv) w1) = (res, (d', w'))"
      using Suc.prems(1) f e by simp
    have d1: "\<not> own_name_key m d1"
      using fr(3) Suc.prems(2) no_name_req_data [of m d c] by auto
    from Suc.IH [OF next_call d1] obtain rs where
      rs: "sent w' = sent w1 @ rs"
        "\<forall>r \<in> set rs. \<not> both_given name idx
           \<and> (\<exists>x. \<not> own_name_key m x \<and> r = build_request c ot m x name idx ver)"
      by auto
    have "sent w' = sent w @ (build_request c ot m d name idx ver # rs)"
      using rs(1) fr(2) nb by simp
    moreover have "\<forall>r \<in> set (build_request c ot m d name idx ver # rs). \<not> both_given name idx
           \<and> (\<exists>x. \<not> own_name_key m x \<and> r = build_request c ot m x name idx ver)"
      using rs(2) nb Suc.prems(2) by auto
    ultimately show ?thesis by blast
  qed
qed

subsection \<open>Failed responses\<close>

lemma handle_errors_raises:
  "fst (handle_errors resp key ot w) =
     (if status_code resp = 400 then
        (case json_body resp of
           None \<Rightarrow> ValueError
         | Some (JDict error) \<Rightarrow>
             (case map_of error ''message'' of
                Some (JStr m) \<Rightarrow>
                  (if suffix OBJ_NOT_FOUND_ERR m then NotFound
                   else if m = VOL_NOT_UNIQUE_ERR
                     then VolumeBackendAPIException (Data ''Volume by this name already exists'')
                   else if m = VOL_OBJ_NOT_FOUND_ERR then VolumeNotFound key
                   else if sublist ALREADY_MAPPED_ERR m then XtremIOAlreadyMappedError
                   else if m = SYSTEM_BUSY then XtremIOArrayBusy
                   else if m \<in> set [TOO_MANY_OBJECTS, TOO_MANY_SNAPSHOTS_PER_VOL]
                     then XtremIOSnapshotsLimitExceeded
                   else VolumeBackendAPIException
                          (Message (''Bad response from XMS, '' @ text_of resp)))
              | _ \<Rightarrow> AttributeError)
         | Some _ \<Rightarrow> AttributeError)
      else VolumeBackendAPIException (Message (''Bad response from XMS, '' @ text_of resp)))"
  unfolding handle_errors_def Let_def classify_message_def bad_response_def
  by (simp split: option.splits json.splits)

lemma handle_errors_fst:
  "fst (handle_errors resp key ot w) = fst (handle_errors resp key ot w')"
  by (simp only: handle_errors_raises)

lemma req_body_error:
  assumes "\<not> both_given name idx"
    and "transport env (build_request c ot m data name idx ver) (array w) = (Response resp, a')"
    and "\<not> (200 \<le> status_code resp \<and> status_code resp < 300)"
  shows "fst (req_body env c ot m name idx ver (data, w))
         = Inl (fst (handle_errors resp (req_key name idx) ot w))"
proof -
  have raised: "fst (case handle_errors resp (req_key name idx) ot v of
                       (e, w4) \<Rightarrow> (Inl e :: exn + json, (d, w4)))
                = Inl (fst (handle_errors resp (req_key name idx) ot w))"
    for v :: "'a world" and d :: dict
    using handle_errors_fst [of resp "req_key name idx" ot v w]
    by (cases "handle_errors resp (req_key name idx) ot v") simp
  have no: "(200 \<le> status_code resp \<and> status_code resp < 300) = False"
    using assms(3) by simp
  show ?thesis
    using assms(1,2) by (auto simp: req_body_def Let_def requests_request_def raised no)
qed

lemma req_error:
  assumes "\<not> both_given name idx"
    and "transport env (build_request c ot m data name idx ver) (array w) = (Response resp, a')"
    and "\<not> (200 \<le> status_code resp \<and> status_code resp < 300)"
    and "\<not> is_XtremIOArrayBusy (fst (handle_errors resp (req_key name idx) ot w))"
  shows "fst (XtremIOClient_req env c ot m data name idx ver w)
         = Inl (fst (handle_errors resp (req_key name idx) ot w))"
proof -
  have "final is_XtremIOArrayBusy (fst (req_body env c ot m name idx ver (data, w)))"
    using req_body_error [of name idx env c ot m data ver w resp a'] assms by (simp add: final_def)
  then have "retry_loop is_XtremIOArrayBusy
               (sleep (xtremio_array_busy_retry_interval (CONF env)))
               (xtremio_array_busy_retry_count (CONF env) - 1)
               (req_body env c ot m name idx ver) (data, w)
             = req_body env c ot m name idx ver (data, w)"
    by (rule retry_loop_final)
  then show ?thesis
    using req_body_error [of name idx env c ot m data ver w resp a'] assms
    by (auto simp: XtremIOClient_req_def retry_def split: prod.splits)
qed

lemma req_not_found:
  assumes "transport env (build_request c ot m data name None ver) (array w) = (Response resp, a')"
    and "status_code resp = 400" and "json_body resp = Some (JDict error)"
    and "map_of error ''message'' = Some (JStr msg)" and "suffix ''obj_not_found'' msg"
  shows "fst (XtremIOClient_req env c ot m data name None ver w) = Inl NotFound"
proof -
  have nf: "fst (handle_errors resp (req_key name None) ot w) = NotFound"
    using handle_errors_not_found [OF assms(2,3,4)] assms(5) by (simp add: OBJ_NOT_FOUND_ERR_def)
  show ?thesis
    using req_error [of name None env c ot m data ver w resp a'] assms(1,2) nf
    by (simp add: both_given_def)
qed

lemma handle_errors_table:
  assumes "status_code resp = 400" and "json_body resp = Some (JDict error)"
    and "map_of error ''message'' = Some (JStr msg)"
  shows "kind_of (fst (handle_errors resp key ot w))
         = Some (if suffix ''obj_not_found'' msg then KindNotFound
                 else if msg = ''vol_obj_name_not_unique'' then KindDuplicateName
                 else if sublist ''already_mapped'' msg then KindAlreadyAttached
                 else if msg = ''system_is_busy'' then KindArrayBusy
                 else if msg = ''too_many_objs'' \<or> msg = ''too_many_snapshots_per_vol''
                   then KindResourceLimitExceeded
                 else KindUnknown (''Bad response from XMS, '' @ text_of resp))"
proof -
  have dead: "suffix ''obj_not_found'' ''vol_obj_not_found''" by code_simp
  show ?thesis
    using assms dead
    by (auto simp: handle_errors_def Let_def classify_message_def bad_response_def
        OBJ_NOT_FOUND_ERR_def VOL_NOT_UNIQUE_ERR_def VOL_OBJ_NOT_FOUND_ERR_def
        ALREADY_MAPPED_ERR_def SYSTEM_BUSY_def TOO_MANY_OBJECTS_def
        TOO_MANY_SNAPSHOTS_PER_VOL_def)
qed

lemma handle_errors_other_status:
  assumes "status_code resp \<noteq> 400"
  shows "kind_of (fst (handle_errors resp key ot w))
         = Some (KindUnknown (''Bad response from XMS, '' @ text_of resp))"
  using assms by (simp add: handle_errors_def Let_def bad_response_def)

subsection \<open>Library calls of the Unity client\<close>

lemma call_fst: "fst (call what op w) = fst (op (uarray w))"
  by (simp add: call_def split: prod.splits)

lemma call_uarray [simp]: "uarray (snd (call what op w)) = snd (op (uarray w))"
  by (simp add: call_def split: prod.splits)

lemma uarray_ulog [simp]: "uarray (ulog lv msg w) = uarray w"
  by (simp add: ulog_def)

lemma calls_ulog [simp]: "calls (ulog lv msg w) = calls w"
  by (simp add: ulog_def calls_def)

lemma ulogged_ulog [simp]: "ulogged (ulog lv msg w) = ulogged w @ [(lv, msg)]"
  by (simp add: ulog_def ulogged_def)

lemma ulogged_call [simp]: "ulogged (snd (call what op w)) = ulogged w"
  by (simp add: call_def ulogged_def split: prod.splits)

lemma calls_call [simp]: "calls (snd (call what op w)) = calls w @ [what]"
  by (simp add: call_def calls_def split: prod.splits)

lemma call_result:
  "fst (op (uarray w)) = r \<Longrightarrow>
   \<exists>w'. call what op w = (r, w') \<and> uarray w' = snd (op (uarray w))
        \<and> calls w' = calls w @ [what] \<and> ulogged w' = ulogged w"
  by (auto simp: call_def calls_def ulogged_def split: prod.splits)

lemma req_duplicate_name:
  assumes "transport env (build_request c ot m data name None ver) (array w) = (Response resp, a')"
    and "status_code resp = 400" and "json_body resp = Some (JDict error)"
    and "map_of error ''message'' = Some (JStr ''vol_obj_name_not_unique'')"
  shows "fst (XtremIOClient_req env c ot m data name None ver w)
         = Inl (VolumeBackendAPIException (Data ''Volume by this name already exists''))"
proof -
  have ns: "\<not> suffix OBJ_NOT_FOUND_ERR ''vol_obj_name_not_unique''" by code_simp
  have dup: "fst (handle_errors resp (req_key name None) ot w)
             = VolumeBackendAPIException (Data ''Volume by this name already exists'')"
    using assms(2,3,4) ns by (simp add: handle_errors_raises VOL_NOT_UNIQUE_ERR_def)
  show ?thesis
    using req_error [of name None env c ot m data ver w resp a'] assms(1,2) dup
    by (simp add: both_given_def)
qed

lemma unity_get_snap_fst:
  "fst (unity_get_snap sdk name v)
   = (case fst (system_get_snap sdk name (uarray v)) of
        Inl UnityResourceNotFoundError \<Rightarrow> Inr None
      | Inl e \<Rightarrow> Inl e
      | Inr snap \<Rightarrow> Inr (Some snap))"
proof -
  obtain r v1 where c: "call ''system.get_snap'' (system_get_snap sdk name) v = (r, v1)"
    by (metis surj_pair)
  have r: "fst (system_get_snap sdk name (uarray v)) = r"
    using c call_fst [of "''system.get_snap''" "system_get_snap sdk name" v] by simp
  show ?thesis
    unfolding r unity_get_snap_def c by (simp split: sum.splits uexn.splits)
qed

lemma retry_loop_sent_mono:
  assumes "retry_loop is_XtremIOArrayBusy (sleep iv) n (req_body env c ot m name idx ver) (d, w)
           = (res, (d', w'))"
  shows "\<exists>rs. sent w' = sent w @ rs"
  using assms
proof (induction n arbitrary: d w)
  case 0
  then have f: "req_body env c ot m name idx ver (d, w) = (res, (d', w'))" by simp
  show ?case using req_body_frame(2) [OF f] by auto
next
  case (Suc n)
  obtain r1 d1 w1 where f: "req_body env c ot m name idx ver (d, w) = (r1, (d1, w1))"
    by (metis surj_pair)
  note fr = req_body_frame [OF f]
  show ?case
  proof (cases "final is_XtremIOArrayBusy r1")
    case True
    with Suc.prems(1) f have "w' = w1"
      by (auto simp: final_def split: sum.splits)
    then show ?thesis using fr(2) by auto
  next
    case False
    then obtain e where e: "r1 = Inl e" "is_XtremIOArrayBusy e"
      by (auto simp: final_def split: sum.splits)
    have next_call: "retry_loop is_XtremIOArrayBusy (sleep iv) n (req_body env c ot m name idx ver)
                 (d1, emit (Slept iv) w1) = (res, (d', w'))"
      using Suc.prems(1) f e by simp
    from Suc.IH [OF next_call] obtain rs where "sent w' = sent w1 @ rs" by auto
    then show ?thesis using fr(2) by auto
  qed
qed

lemma req_first_sent:
  assumes "\<not> both_given name idx"
    and "XtremIOClient_req env c ot m data name idx ver w = (res, w')"
  shows "\<exists>rest. sent w' = sent w @ build_request c ot m data name idx ver # rest"
proof -
  let ?iv = "xtremio_array_busy_retry_interval (CONF env)"
  let ?n = "xtremio_array_busy_retry_count (CONF env) - 1"
  let ?f = "req_body env c ot m name idx ver"
  obtain d' where rl: "retry_loop is_XtremIOArrayBusy (sleep ?iv) ?n ?f (data, w) = (res, (d', w'))"
    using assms(2) by (auto simp: XtremIOClient_req_def retry_def split: prod.splits)
  obtain r1 d1 w1 where f: "?f (data, w) = (r1, (d1, w1))"
    by (metis surj_pair)
  have s1: "sent w1 = sent w @ [build_request c ot m data name idx ver]"
    using req_body_frame(2) [OF f] assms(1) by simp
  show ?thesis
  proof (cases "?n")
    case 0
    then have "w' = w1" using rl f by simp
    then show ?thesis using s1 by simp
  next
    case (Suc k)
    show ?thesis
    proof (cases "final is_XtremIOArrayBusy r1")
      case True
      then have "w' = w1" using rl f Suc by (auto simp: final_def split: sum.splits)
      then show ?thesis using s1 by simp
    next
      case False
      then obtain e where e: "r1 = Inl e" "is_XtremIOArrayBusy e"
        by (auto simp: final_def split: sum.splits)
      have "retry_loop is_XtremIOArrayBusy (sleep ?iv) k ?f (d1, emit (Slept ?iv) w1)
            = (res, (d', w'))"
        using rl f e Suc by simp
      from retry_loop_sent_mono [OF this] obtain rs where "sent w' = sent w1 @ rs" by auto
      then show ?thesis using s1 by simp
    qed
  qed
qed

lemma both_given_JNull [simp]: "\<not> both_given JNull idx"
  by (simp add: both_given_def)

subsection \<open>The version probe\<close>





section \<open>Properties of the drivers\<close>



text \<open>
  C2 (as amended). \<open>XtremIOClient4.create_snapshot\<close> first POSTs the snapshot set, then
  renames the object the array returned to the requested name with a PUT. If the rename
  raises \<open>VolumeBackendAPIException\<close>, a compensating DELETE of that object is put on
  the wire next and, when the DELETE succeeds, the rename error goes to the caller (when
  the DELETE raises, its error does). A rename that fails in any other way (not found,
  still busy after the retries, limit exceeded, no connection) goes to the caller with no
  DELETE. If both phases succeed the call returns normally.
\<close>

theorem create_snapshot_two_phase:
  assumes post: "req env c ''snapshots'' ''POST'' (snapshot_set_request src dest ro) JNull None
                   (Some ''v2'') w = (Inr res, w1)"
    and ref: "obj_ref res = Inr (typ, idx)"
    and int: "py_int idx = Inr i"
    and put: "req env c typ ''PUT'' [(''name'', JStr dest)] JNull (Some i) None w1 = (rp, w2)"
  shows "(\<exists>rest. sent w1 = sent w @ build_request c ''snapshots'' ''POST''
                      (snapshot_set_request src dest ro) JNull None ''v2'' # rest)
       \<and> (\<exists>rest. sent w2 = sent w1 @ build_request c typ ''PUT'' [(''name'', JStr dest)] JNull (Some i)
                      (case variant c of XtremIOClient3 \<Rightarrow> ''v1'' | XtremIOClient4 \<Rightarrow> ''v2'') # rest)
       \<and> (\<forall>r. rp = Inr r \<longrightarrow> XtremIOClient4_create_snapshot env c src dest ro w = (Inr (), w2))
       \<and> (\<forall>e. rp = Inl e \<and> \<not> is_VolumeBackendAPIException e
              \<longrightarrow> XtremIOClient4_create_snapshot env c src dest ro w = (Inl e, w2))
       \<and> (\<forall>e rd w3. rp = Inl e \<and> is_VolumeBackendAPIException e
              \<and> req env c typ ''DELETE'' [] JNull (Some i) None
                   (emit (Logged ERROR ''Failed to rename the created snapshot, reverting.'') w2)
                 = (rd, w3)
              \<longrightarrow> XtremIOClient4_create_snapshot env c src dest ro w
                    = ((case rd of Inl e' \<Rightarrow> Inl e' | Inr r \<Rightarrow> Inl e), w3)
                \<and> (\<exists>rest. sent w3 = sent w2 @ build_request c typ ''DELETE'' [] JNull (Some i)
                      (case variant c of XtremIOClient3 \<Rightarrow> ''v1'' | XtremIOClient4 \<Rightarrow> ''v2'') # rest))"
proof (intro conjI allI impI)
  show "\<exists>rest. sent w1 = sent w @ build_request c ''snapshots'' ''POST''
                      (snapshot_set_request src dest ro) JNull None ''v2'' # rest"
    using req_first_sent [of JNull None env c "''snapshots''" "''POST''" _ "''v2''" w "Inr res" w1] post
    by (simp add: req_def)
  show "\<exists>rest. sent w2 = sent w1 @ build_request c typ ''PUT'' [(''name'', JStr dest)] JNull (Some i)
                      (case variant c of XtremIOClient3 \<Rightarrow> ''v1'' | XtremIOClient4 \<Rightarrow> ''v2'') # rest"
    using req_first_sent [of JNull "Some i" env c "typ" "''PUT''" _ _ w1 rp w2] put
    by (simp add: req_def)
next
  fix r assume "rp = Inr r"
  then show "XtremIOClient4_create_snapshot env c src dest ro w = (Inr (), w2)"
    using post ref int put by (simp add: XtremIOClient4_create_snapshot_def)
next
  fix e assume "rp = Inl e \<and> \<not> is_VolumeBackendAPIException e"
  then show "XtremIOClient4_create_snapshot env c src dest ro w = (Inl e, w2)"
    using post ref int put by (simp add: XtremIOClient4_create_snapshot_def)
next
  fix e rd w3
  assume a: "rp = Inl e \<and> is_VolumeBackendAPIException e
              \<and> req env c typ ''DELETE'' [] JNull (Some i) None
                   (emit (Logged ERROR ''Failed to rename the created snapshot, reverting.'') w2)
                 = (rd, w3)"
  then show "XtremIOClient4_create_snapshot env c src dest ro w
                    = ((case rd of Inl e' \<Rightarrow> Inl e' | Inr r \<Rightarrow> Inl e), w3)"
    using post ref int put by (simp add: XtremIOClient4_create_snapshot_def split: sum.splits)
  show "\<exists>rest. sent w3 = sent w2 @ build_request c typ ''DELETE'' [] JNull (Some i)
                      (case variant c of XtremIOClient3 \<Rightarrow> ''v1'' | XtremIOClient4 \<Rightarrow> ''v2'') # rest"
    using req_first_sent [of JNull "Some i" env c "typ" "''DELETE''" _ _
        "emit (Logged ERROR ''Failed to rename the created snapshot, reverting.'') w2" rd w3] a
    by (simp add: req_def)
qed

text \<open>
  The rename answered with a 500: the created volume 7 is deleted and the rename error
  is raised.
\<close>

theorem create_snapshot_two_phase_witness:
  "fst (XtremIOClient4_create_snapshot xms current_client ''vol-1'' ''snap-1'' True
          (start [created_at ''https://xms/api/json/v2/types/volumes/7'',
                  Response \<lparr>status_code = 500, text_of = ''Internal Error'', json_body = None\<rparr>,
                  Response \<lparr>status_code = 200, text_of = [], json_body = None\<rparr>]))
     = Inl (VolumeBackendAPIException (Message ''Bad response from XMS, Internal Error''))
   \<and> map (\<lambda>r. (r_method r, r_url r))
        (sent (snd (XtremIOClient4_create_snapshot xms current_client ''vol-1'' ''snap-1'' True
          (start [created_at ''https://xms/api/json/v2/types/volumes/7'',
                  Response \<lparr>status_code = 500, text_of = ''Internal Error'', json_body = None\<rparr>,
                  Response \<lparr>status_code = 200, text_of = [], json_body = None\<rparr>]))))
     = [(''POST'', ''https://xms/api/json/v2/types/snapshots''),
        (''PUT'', ''https://xms/api/json/v2/types/volumes/7''),
        (''DELETE'', ''https://xms/api/json/v2/types/volumes/7'')]"
proof -
  define w where "w = start [created_at ''https://xms/api/json/v2/types/volumes/7'',
                  Response \<lparr>status_code = 500, text_of = ''Internal Error'', json_body = None\<rparr>,
                  Response \<lparr>status_code = 200, text_of = [], json_body = None\<rparr>]"
  define res where "res = JDict [(''links'', JList [JDict [(''href'',
                      JStr ''https://xms/api/json/v2/types/volumes/7'')]])]"
  define w1 where "w1 = snd (req xms current_client ''snapshots'' ''POST''
                   (snapshot_set_request ''vol-1'' ''snap-1'' True) JNull None (Some ''v2'') w)"
  define w2 where "w2 = snd (req xms current_client ''volumes'' ''PUT''
                   [(''name'', JStr ''snap-1'')] JNull (Some 7) None w1)"
  define w3 where "w3 = snd (req xms current_client ''volumes'' ''DELETE'' [] JNull (Some 7) None
                   (emit (Logged ERROR ''Failed to rename the created snapshot, reverting.'') w2))"
  define e where "e = VolumeBackendAPIException (Message ''Bad response from XMS, Internal Error'')"
  have "fst (req xms current_client ''snapshots'' ''POST''
                   (snapshot_set_request ''vol-1'' ''snap-1'' True) JNull None (Some ''v2'') w) = Inr res"
    unfolding w_def res_def by code_simp
  then have post: "req xms current_client ''snapshots'' ''POST''
                   (snapshot_set_request ''vol-1'' ''snap-1'' True) JNull None (Some ''v2'') w
                   = (Inr res, w1)"
    by (simp add: w1_def prod_eq_iff)
  have ref: "obj_ref res = Inr (''volumes'', ''7'')"
    unfolding res_def by code_simp
  have int: "py_int ''7'' = Inr 7"
    by code_simp
  have "fst (req xms current_client ''volumes'' ''PUT''
                   [(''name'', JStr ''snap-1'')] JNull (Some 7) None w1) = Inl e"
    unfolding w1_def w_def e_def by code_simp
  then have put: "req xms current_client ''volumes'' ''PUT''
                   [(''name'', JStr ''snap-1'')] JNull (Some 7) None w1 = (Inl e, w2)"
    by (simp add: w2_def prod_eq_iff)
  have "fst (req xms current_client ''volumes'' ''DELETE'' [] JNull (Some 7) None
                   (emit (Logged ERROR ''Failed to rename the created snapshot, reverting.'') w2))
        = Inr (JStr [])"
    unfolding w2_def w1_def w_def by code_simp
  then have del: "req xms current_client ''volumes'' ''DELETE'' [] JNull (Some 7) None
                   (emit (Logged ERROR ''Failed to rename the created snapshot, reverting.'') w2)
                  = (Inr (JStr []), w3)"
    by (simp add: w3_def prod_eq_iff)
  have vb: "is_VolumeBackendAPIException e" by (simp add: e_def)
  from create_snapshot_two_phase [OF post ref int put, THEN conjunct2, THEN conjunct2,
      THEN conjunct2, THEN conjunct2, rule_format, of e "Inr (JStr [])" w3] vb del
  have r: "XtremIOClient4_create_snapshot xms current_client ''vol-1'' ''snap-1'' True w
           = (Inl e, w3)"
    by simp
  have s: "map (\<lambda>r. (r_method r, r_url r))
        (sent (snd (XtremIOClient4_create_snapshot xms current_client ''vol-1'' ''snap-1'' True w)))
     = [(''POST'', ''https://xms/api/json/v2/types/snapshots''),
        (''PUT'', ''https://xms/api/json/v2/types/volumes/7''),
        (''DELETE'', ''https://xms/api/json/v2/types/volumes/7'')]"
    unfolding w_def by code_simp
  from r s show ?thesis unfolding w_def e_def by simp
qed

text \<open>
  Against C2 as stated: the rename answered with \<^verbatim>\<open>obj_not_found\<close>, and the rename
  meeting a broken connection. \<open>NotFound\<close>, or the \<open>VolumeDriverException\<close> of the
  transport, goes to the caller and no DELETE is sent; the created object stays on the
  array.
\<close>

theorem create_snapshot_rename_not_found:
  "fst (XtremIOClient4_create_snapshot xms current_client ''vol-1'' ''snap-1'' True
          (start [created_at ''https://xms/api/json/v2/types/volumes/7'',
                  refuse ''obj_not_found'',
                  Response \<lparr>status_code = 200, text_of = [], json_body = None\<rparr>]))
     = Inl NotFound
   \<and> map (\<lambda>r. (r_method r, r_url r))
        (sent (snd (XtremIOClient4_create_snapshot xms current_client ''vol-1'' ''snap-1'' True
          (start [created_at ''https://xms/api/json/v2/types/volumes/7'',
                  refuse ''obj_not_found'',
                  Response \<lparr>status_code = 200, text_of = [], json_body = None\<rparr>]))))
     = [(''POST'', ''https://xms/api/json/v2/types/snapshots''),
        (''PUT'', ''https://xms/api/json/v2/types/volumes/7'')]
   \<and> fst (XtremIOClient4_create_snapshot xms current_client ''vol-1'' ''snap-1'' True
          (start [created_at ''https://xms/api/json/v2/types/volumes/7'']))
     = Inl (VolumeDriverException ''Exception: connection refused'')
   \<and> map (\<lambda>r. (r_method r, r_url r))
        (sent (snd (XtremIOClient4_create_snapshot xms current_client ''vol-1'' ''snap-1'' True
          (start [created_at ''https://xms/api/json/v2/types/volumes/7'']))))
     = [(''POST'', ''https://xms/api/json/v2/types/snapshots''),
        (''PUT'', ''https://xms/api/json/v2/types/volumes/7'')]"
  by code_simp

text \<open>
  C3 (as amended). \<open>UnityClient.create_lun\<close> and \<open>UnityClient.create_snap\<close> absorb a
  name-in-use error of the array: the existing resource is fetched by name and what the
  fetch gives is returned, so that creating a LUN a second time under the same name, on
  an array that still has the first, returns the same LUN. \<open>XtremIOVolumeDriver.create_volume\<close>
  has no such fallback: when the array answers that the name is not unique, the
  \<open>VolumeBackendAPIException\<close> "Volume by this name already exists" goes to the caller.
\<close>

theorem create_or_fetch:
  "(pool_create_lun sdk pool name size_gb description policy (uarray w)
       = (Inl UnityLunNameInUseError, u1)
    \<longrightarrow> fst (unity_create_lun sdk name size_gb pool description policy w)
          = fst (system_get_lun sdk None (Some name) u1))
   \<and> (unity_create_lun sdk name size_gb pool description policy w = (Inr lun, w1)
      \<and> pool_create_lun sdk pool name size_gb description policy (uarray w1)
          = (Inl UnityLunNameInUseError, u2)
      \<and> fst (system_get_lun sdk None (Some name) u2) = Inr lun
    \<longrightarrow> fst (unity_create_lun sdk name size_gb pool description policy w1) = Inr lun)
   \<and> (create_snap_attempt sdk src_lun_id snap_name w = (Inl UnitySnapNameInUseError, w2)
    \<longrightarrow> fst (unity_create_snap sdk src_lun_id snap_name w)
          = (case fst (system_get_snap sdk snap_name (uarray w2)) of
               Inl UnityResourceNotFoundError \<Rightarrow> Inr None
             | Inl e \<Rightarrow> Inl e
             | Inr snap \<Rightarrow> Inr (Some snap)))
   \<and> (transport env (build_request (client d) ''volumes'' ''POST''
               [(''vol-name'', JStr (vol_id vol)),
                (''vol-size'', JStr (str_int (vol_size vol) @ ''g''))] JNull None
               (case variant (client d) of XtremIOClient3 \<Rightarrow> ''v1'' | XtremIOClient4 \<Rightarrow> ''v2''))
          (array xw) = (Response resp, a')
      \<and> status_code resp = 400 \<and> json_body resp = Some (JDict error)
      \<and> map_of error ''message'' = Some (JStr ''vol_obj_name_not_unique'')
    \<longrightarrow> fst (create_volume env d vol xw)
          = Inl (VolumeBackendAPIException (Data ''Volume by this name already exists'')))"
proof (intro conjI impI)
  have fetch: "fst (unity_create_lun sdk name size_gb pool description policy v)
               = fst (system_get_lun sdk None (Some name) u)"
    if "pool_create_lun sdk pool name size_gb description policy (uarray v)
          = (Inl UnityLunNameInUseError, u)" for v u
  proof -
    have "fst (pool_create_lun sdk pool name size_gb description policy (uarray v))
          = Inl UnityLunNameInUseError" using that by simp
    from call_result [where op = "pool_create_lun sdk pool name size_gb description policy"
        and w = v and what = "''pool.create_lun''", OF this] that
    obtain v1 where c: "call ''pool.create_lun''
          (pool_create_lun sdk pool name size_gb description policy) v
          = (Inl UnityLunNameInUseError, v1)" "uarray v1 = u"
      by auto
    show ?thesis
      using c by (simp add: unity_create_lun_def call_fst)
  qed
  {
    assume "pool_create_lun sdk pool name size_gb description policy (uarray w)
       = (Inl UnityLunNameInUseError, u1)"
    then show "fst (unity_create_lun sdk name size_gb pool description policy w)
          = fst (system_get_lun sdk None (Some name) u1)"
      by (rule fetch)
  }
  {
    assume "unity_create_lun sdk name size_gb pool description policy w = (Inr lun, w1)
      \<and> pool_create_lun sdk pool name size_gb description policy (uarray w1)
          = (Inl UnityLunNameInUseError, u2)
      \<and> fst (system_get_lun sdk None (Some name) u2) = Inr lun"
    then show "fst (unity_create_lun sdk name size_gb pool description policy w1) = Inr lun"
      using fetch [of w1 u2] by simp
  }
  {
    assume a: "create_snap_attempt sdk src_lun_id snap_name w = (Inl UnitySnapNameInUseError, w2)"
    show "fst (unity_create_snap sdk src_lun_id snap_name w)
          = (case fst (system_get_snap sdk snap_name (uarray w2)) of
               Inl UnityResourceNotFoundError \<Rightarrow> Inr None
             | Inl e \<Rightarrow> Inl e
             | Inr snap \<Rightarrow> Inr (Some snap))"
      using a by (simp add: unity_create_snap_def unity_get_snap_fst)
  }
  {
    assume "transport env (build_request (client d) ''volumes'' ''POST''
               [(''vol-name'', JStr (vol_id vol)),
                (''vol-size'', JStr (str_int (vol_size vol) @ ''g''))] JNull None
               (case variant (client d) of XtremIOClient3 \<Rightarrow> ''v1'' | XtremIOClient4 \<Rightarrow> ''v2''))
          (array xw) = (Response resp, a')
      \<and> status_code resp = 400 \<and> json_body resp = Some (JDict error)
      \<and> map_of error ''message'' = Some (JStr ''vol_obj_name_not_unique'')"
    then have "fst (req env (client d) ''volumes'' ''POST''
               [(''vol-name'', JStr (vol_id vol)),
                (''vol-size'', JStr (str_int (vol_size vol) @ ''g''))] JNull None None xw)
             = Inl (VolumeBackendAPIException (Data ''Volume by this name already exists''))"
      using req_duplicate_name [of env "client d" "''volumes''" "''POST''" _ JNull _ xw resp a' error]
      by (simp add: req_def)
    then show "fst (create_volume env d vol xw)
          = Inl (VolumeBackendAPIException (Data ''Volume by this name already exists''))"
      by (auto simp: create_volume_def split: prod.splits)
  }
qed

text \<open>
  A LUN created twice under one name is the same LUN both times; a snapshot whose name
  is taken is fetched; a volume whose name is taken on the XtremIO array is an error.
\<close>

theorem create_or_fetch_witness:
  "fst (unity_create_lun toy_storops ''lun-1'' 10 () None None
          (ustart \<lparr>luns_of = [], snaps_of = []\<rparr>)) = Inr ''lun-1''
   \<and> fst (unity_create_lun toy_storops ''lun-1'' 10 () None None
          (snd (unity_create_lun toy_storops ''lun-1'' 10 () None None
                  (ustart \<lparr>luns_of = [], snaps_of = []\<rparr>)))) = Inr ''lun-1''
   \<and> fst (unity_create_snap toy_storops ''lun-1'' (Some ''snap-1'')
          (ustart \<lparr>luns_of = [''lun-1''], snaps_of = [(''snap-1'', False)]\<rparr>))
       = Inr (Some ''snap-1'')
   \<and> fst (create_volume xms legacy_driver vol1 (start [refuse ''vol_obj_name_not_unique'']))
       = Inl (VolumeBackendAPIException (Data ''Volume by this name already exists''))"
proof -
  define w0 where "w0 = ustart \<lparr>luns_of = [], snaps_of = []\<rparr>"
  define w1 where "w1 = snd (unity_create_lun toy_storops ''lun-1'' 10 () None None w0)"
  define ws where "ws = ustart \<lparr>luns_of = [''lun-1''], snaps_of = [(''snap-1'', False)]\<rparr>"
  have first_call: "fst (unity_create_lun toy_storops ''lun-1'' 10 () None None w0) = Inr ''lun-1''"
    unfolding w0_def by code_simp
  then have h1: "unity_create_lun toy_storops ''lun-1'' 10 () None None w0 = (Inr ''lun-1'', w1)"
    by (simp add: w1_def prod_eq_iff)
  have a1: "uarray w1 = \<lparr>luns_of = [''lun-1''], snaps_of = []\<rparr>"
    unfolding w1_def w0_def by code_simp
  have h2: "pool_create_lun toy_storops () ''lun-1'' 10 None None (uarray w1)
            = (Inl UnityLunNameInUseError, \<lparr>luns_of = [''lun-1''], snaps_of = []\<rparr>)"
    unfolding a1 by (simp add: toy_storops_def)
  have h3: "fst (system_get_lun toy_storops None (Some ''lun-1'') \<lparr>luns_of = [''lun-1''], snaps_of = []\<rparr>)
            = Inr ''lun-1''"
    by (simp add: toy_storops_def)
  from create_or_fetch [where sdk = toy_storops and name = "''lun-1''" and size_gb = 10
      and pool = "()" and description = None and policy = None and w = w0 and lun = "''lun-1''"
      and ?w1.0 = w1 and ?u2.0 = "\<lparr>luns_of = [''lun-1''], snaps_of = []\<rparr>",
      THEN conjunct2, THEN conjunct1] h1 h2 h3
  have second_call: "fst (unity_create_lun toy_storops ''lun-1'' 10 () None None w1) = Inr ''lun-1''"
    by simp
  have "fst (create_snap_attempt toy_storops ''lun-1'' (Some ''snap-1'') ws)
        = Inl UnitySnapNameInUseError"
    unfolding ws_def by code_simp
  then have h4: "create_snap_attempt toy_storops ''lun-1'' (Some ''snap-1'') ws
        = (Inl UnitySnapNameInUseError,
           snd (create_snap_attempt toy_storops ''lun-1'' (Some ''snap-1'') ws))"
    by (simp add: prod_eq_iff)
  have a2: "uarray (snd (create_snap_attempt toy_storops ''lun-1'' (Some ''snap-1'') ws))
            = \<lparr>luns_of = [''lun-1''], snaps_of = [(''snap-1'', False)]\<rparr>"
    unfolding ws_def by code_simp
  have h5: "fst (system_get_snap toy_storops (Some ''snap-1'')
                  \<lparr>luns_of = [''lun-1''], snaps_of = [(''snap-1'', False)]\<rparr>) = Inr ''snap-1''"
    by (simp add: toy_storops_def)
  from create_or_fetch [where sdk = toy_storops and src_lun_id = "''lun-1''"
      and snap_name = "Some ''snap-1''" and w = ws
      and ?w2.0 = "snd (create_snap_attempt toy_storops ''lun-1'' (Some ''snap-1'') ws)",
      THEN conjunct2, THEN conjunct2, THEN conjunct1] h4 a2 h5
  have snap_call: "fst (unity_create_snap toy_storops ''lun-1'' (Some ''snap-1'') ws)
                   = Inr (Some ''snap-1'')"
    by simp
  define dup where "dup = \<lparr>status_code = 400, text_of = ''(json)'',
      json_body = Some (JDict [(''message'', JStr ''vol_obj_name_not_unique'')])\<rparr>"
  have h6: "transport xms (build_request (client legacy_driver) ''volumes'' ''POST''
               [(''vol-name'', JStr (vol_id vol1)),
                (''vol-size'', JStr (str_int (vol_size vol1) @ ''g''))] JNull None
               (case variant (client legacy_driver) of XtremIOClient3 \<Rightarrow> ''v1''
                | XtremIOClient4 \<Rightarrow> ''v2''))
          (array (start [refuse ''vol_obj_name_not_unique''])) = (Response dup, [])"
    unfolding dup_def by code_simp
  from create_or_fetch [where env = xms and d = legacy_driver and vol = vol1
      and xw = "start [refuse ''vol_obj_name_not_unique'']" and resp = dup and a' = "[]"
      and error = "[(''message'', JStr ''vol_obj_name_not_unique'')]",
      THEN conjunct2, THEN conjunct2, THEN conjunct2] h6
  have xio: "fst (create_volume xms legacy_driver vol1 (start [refuse ''vol_obj_name_not_unique'']))
       = Inl (VolumeBackendAPIException (Data ''Volume by this name already exists''))"
    by (simp add: dup_def)
  from first_call second_call snap_call xio show ?thesis
    unfolding w1_def w0_def ws_def by simp
qed

text \<open>
  Against C3 as stated: \<open>create_volume\<close> called twice with the same volume, the array
  accepting the first and answering the second with \<^verbatim>\<open>vol_obj_name_not_unique\<close>; the
  duplicate-name error reaches the caller.
\<close>

theorem create_volume_duplicate_surfaces:
  "fst (create_volume xms legacy_driver vol1
          (start [ok (JDict [(''links'', JList [])]), refuse ''vol_obj_name_not_unique''])) = Inr ()
   \<and> fst (create_volume xms legacy_driver vol1
          (snd (snd (create_volume xms legacy_driver vol1
             (start [ok (JDict [(''links'', JList [])]), refuse ''vol_obj_name_not_unique''])))))
       = Inl (VolumeBackendAPIException (Data ''Volume by this name already exists''))
   \<and> kind_of (VolumeBackendAPIException (Data ''Volume by this name already exists''))
       = Some KindDuplicateName"
  by code_simp

text \<open>
  C4. \<open>handle_errors\<close> is to turn every failed response into one member of the closed
  taxonomy. It does so for every status other than 400 and for every 400 whose body is a
  JSON object with a string message (\<open>handle_errors_table\<close>,
  \<open>handle_errors_other_status\<close>). The code leaves that taxonomy on a 400 whose body
  has no message, or is not JSON: \<^verbatim>\<open>error.get('message')\<close> is \<^verbatim>\<open>None\<close> and
  \<^verbatim>\<open>None.endswith\<close> is an AttributeError; \<^verbatim>\<open>response.json()\<close> is a ValueError.
\<close>

theorem handle_errors_unclassified:
  "fst (handle_errors \<lparr>status_code = 400, text_of = ''{}'', json_body = Some (JDict [])\<rparr>
          (JStr ''vol-1'') ''volumes'' (start [])) = AttributeError
   \<and> kind_of AttributeError = None
   \<and> fst (handle_errors \<lparr>status_code = 400, text_of = ''Bad Request'', json_body = None\<rparr>
          (JStr ''vol-1'') ''volumes'' (start [])) = ValueError
   \<and> kind_of ValueError = None"
  by (simp add: handle_errors_def Let_def)

text \<open>
  C5. A not-found answer to a delete is the end state wanted: when the array answers the
  DELETE of a volume or of a snapshot with its not-found token, \<open>delete_volume\<close> and
  \<open>delete_snapshot\<close> return normally, and so does \<open>UnityClient.delete_lun\<close> when the
  lookup of the LUN or its deletion raises \<open>UnityResourceNotFoundError\<close>. In
  particular a second delete of the same key, which the array answers so, does not
  raise.
\<close>

theorem delete_absorbs_not_found:
  "(transport env (build_request (client d) ''volumes'' ''DELETE'' [] (JStr (vol_name_id vol)) None
            (case variant (client d) of XtremIOClient3 \<Rightarrow> ''v1'' | XtremIOClient4 \<Rightarrow> ''v2''))
       (array w) = (Response resp, a')
     \<and> status_code resp = 400 \<and> json_body resp = Some (JDict error)
     \<and> map_of error ''message'' = Some (JStr msg) \<and> suffix ''obj_not_found'' msg
    \<longrightarrow> fst (delete_volume env d vol w) = Inr ())
   \<and> (transport env (build_request (client d) ''volumes'' ''DELETE'' [] (JStr (snap_id snap)) None
            (case variant (client d) of XtremIOClient3 \<Rightarrow> ''v1'' | XtremIOClient4 \<Rightarrow> ''v2''))
       (array w) = (Response resp, a')
     \<and> status_code resp = 400 \<and> json_body resp = Some (JDict error)
     \<and> map_of error ''message'' = Some (JStr msg) \<and> suffix ''obj_not_found'' msg
    \<longrightarrow> fst (delete_snapshot env d snap w) = Inr ())
   \<and> (fst (system_get_lun sdk (Some lun_id) None (uarray uw)) = Inl UnityResourceNotFoundError
    \<longrightarrow> fst (unity_delete_lun sdk lun_id uw) = Inr ())
   \<and> (system_get_lun sdk (Some lun_id) None (uarray uw) = (Inr lun, u1)
     \<and> fst (lun_delete sdk lun u1) = Inl UnityResourceNotFoundError
    \<longrightarrow> fst (unity_delete_lun sdk lun_id uw) = Inr ())"
proof (intro conjI impI)
  assume "transport env (build_request (client d) ''volumes'' ''DELETE'' [] (JStr (vol_name_id vol)) None
            (case variant (client d) of XtremIOClient3 \<Rightarrow> ''v1'' | XtremIOClient4 \<Rightarrow> ''v2''))
       (array w) = (Response resp, a')
     \<and> status_code resp = 400 \<and> json_body resp = Some (JDict error)
     \<and> map_of error ''message'' = Some (JStr msg) \<and> suffix ''obj_not_found'' msg"
  then have "fst (req env (client d) ''volumes'' ''DELETE'' [] (JStr (vol_name_id vol)) None None w)
             = Inl NotFound"
    using req_not_found [of env "client d" "''volumes''" "''DELETE''" "[]" "JStr (vol_name_id vol)"
        _ w resp a' error msg]
    by (simp add: req_def)
  then show "fst (delete_volume env d vol w) = Inr ()"
    by (auto simp: delete_volume_def split: prod.splits)
next
  assume "transport env (build_request (client d) ''volumes'' ''DELETE'' [] (JStr (snap_id snap)) None
            (case variant (client d) of XtremIOClient3 \<Rightarrow> ''v1'' | XtremIOClient4 \<Rightarrow> ''v2''))
       (array w) = (Response resp, a')
     \<and> status_code resp = 400 \<and> json_body resp = Some (JDict error)
     \<and> map_of error ''message'' = Some (JStr msg) \<and> suffix ''obj_not_found'' msg"
  then have "fst (req env (client d) ''volumes'' ''DELETE'' [] (JStr (snap_id snap)) None None w)
             = Inl NotFound"
    using req_not_found [of env "client d" "''volumes''" "''DELETE''" "[]" "JStr (snap_id snap)"
        _ w resp a' error msg]
    by (simp add: req_def)
  then show "fst (delete_snapshot env d snap w) = Inr ()"
    by (auto simp: delete_snapshot_def split: prod.splits)
next
  assume "fst (system_get_lun sdk (Some lun_id) None (uarray uw)) = Inl UnityResourceNotFoundError"
  from call_result [where op = "system_get_lun sdk (Some lun_id) None" and w = uw
      and what = "''system.get_lun''", OF this]
  show "fst (unity_delete_lun sdk lun_id uw) = Inr ()"
    by (auto simp: unity_delete_lun_def)
next
  assume a: "system_get_lun sdk (Some lun_id) None (uarray uw) = (Inr lun, u1)
     \<and> fst (lun_delete sdk lun u1) = Inl UnityResourceNotFoundError"
  then have "fst (system_get_lun sdk (Some lun_id) None (uarray uw)) = Inr lun" by simp
  from call_result [where op = "system_get_lun sdk (Some lun_id) None" and w = uw
      and what = "''system.get_lun''", OF this] a obtain w1 where
    c1: "call ''system.get_lun'' (system_get_lun sdk (Some lun_id) None) uw = (Inr lun, w1)"
    and u1: "uarray w1 = u1"
    by auto
  have "fst (lun_delete sdk lun (uarray w1)) = Inl UnityResourceNotFoundError"
    using a u1 by simp
  from call_result [where op = "lun_delete sdk lun" and w = w1
      and what = "''lun.delete''", OF this] obtain w2 where
    c2: "call ''lun.delete'' (lun_delete sdk lun) w1 = (Inl UnityResourceNotFoundError, w2)"
    by auto
  show "fst (unity_delete_lun sdk lun_id uw) = Inr ()"
    using c1 c2 by (simp add: unity_delete_lun_def)
qed

text \<open>
  A volume deleted twice (the array confirms the first delete and no longer knows the
  volume at the second), a snapshot the array does not know, a LUN the Unity array does
  not have, and a LUN that another client removes between lookup and delete.
\<close>

theorem delete_absorbs_not_found_witness:
  "fst (delete_volume xms legacy_driver vol1
          (start [Response \<lparr>status_code = 200, text_of = [], json_body = None\<rparr>,
                  refuse ''obj_not_found''])) = Inr ()
   \<and> fst (delete_volume xms legacy_driver vol1
          (snd (snd (delete_volume xms legacy_driver vol1
             (start [Response \<lparr>status_code = 200, text_of = [], json_body = None\<rparr>,
                     refuse ''obj_not_found'']))))) = Inr ()
   \<and> fst (delete_snapshot xms legacy_driver snap1 (start [refuse ''obj_not_found''])) = Inr ()
   \<and> fst (unity_delete_lun toy_storops ''ghost'' (ustart \<lparr>luns_of = [], snaps_of = []\<rparr>)) = Inr ()
   \<and> fst (unity_delete_lun racing_storops ''lun-1''
          (ustart \<lparr>luns_of = [''lun-1''], snaps_of = []\<rparr>)) = Inr ()"
proof -
  define w0 where "w0 = start [Response \<lparr>status_code = 200, text_of = [], json_body = None\<rparr>,
                  refuse ''obj_not_found'']"
  define w1 where "w1 = snd (snd (delete_volume xms legacy_driver vol1 w0))"
  define gone where "gone = \<lparr>status_code = 400, text_of = ''(json)'',
      json_body = Some (JDict [(''message'', JStr ''obj_not_found'')])\<rparr>"
  have first_call: "fst (delete_volume xms legacy_driver vol1 w0) = Inr ()"
    unfolding w0_def by code_simp
  have s: "suffix ''obj_not_found'' ''obj_not_found''" by simp
  have m: "map_of [(''message'', JStr ''obj_not_found'')] ''message'' = Some (JStr ''obj_not_found'')"
    by simp
  have h1: "transport xms (build_request (client legacy_driver) ''volumes'' ''DELETE'' []
               (JStr (vol_name_id vol1)) None
               (case variant (client legacy_driver) of XtremIOClient3 \<Rightarrow> ''v1''
                | XtremIOClient4 \<Rightarrow> ''v2'')) (array w1) = (Response gone, [])"
    unfolding w1_def w0_def gone_def by code_simp
  have second_call: "fst (delete_volume xms legacy_driver vol1 w1) = Inr ()"
    using delete_absorbs_not_found [where env = xms and d = legacy_driver and vol = vol1 and w = w1
        and resp = gone and a' = "[]" and error = "[(''message'', JStr ''obj_not_found'')]"
        and msg = "''obj_not_found''", THEN conjunct1] h1 s m
    by (simp add: gone_def)
  have h2: "transport xms (build_request (client legacy_driver) ''volumes'' ''DELETE'' []
               (JStr (snap_id snap1)) None
               (case variant (client legacy_driver) of XtremIOClient3 \<Rightarrow> ''v1''
                | XtremIOClient4 \<Rightarrow> ''v2'')) (array (start [refuse ''obj_not_found'']))
            = (Response gone, [])"
    unfolding gone_def by code_simp
  have snap_call: "fst (delete_snapshot xms legacy_driver snap1 (start [refuse ''obj_not_found''])) = Inr ()"
    using delete_absorbs_not_found [where env = xms and d = legacy_driver and snap = snap1
        and w = "start [refuse ''obj_not_found'']"
        and resp = gone and a' = "[]" and error = "[(''message'', JStr ''obj_not_found'')]"
        and msg = "''obj_not_found''", THEN conjunct2, THEN conjunct1] h2 s m
    by (simp add: gone_def)
  have h3: "fst (system_get_lun toy_storops (Some ''ghost'') None
                   (uarray (ustart \<lparr>luns_of = [], snaps_of = []\<rparr>)))
            = Inl UnityResourceNotFoundError"
    by (simp add: toy_storops_def ustart_def)
  have ghost: "fst (unity_delete_lun toy_storops ''ghost'' (ustart \<lparr>luns_of = [], snaps_of = []\<rparr>)) = Inr ()"
    using delete_absorbs_not_found [where sdk = toy_storops and lun_id = "''ghost''"
        and uw = "ustart \<lparr>luns_of = [], snaps_of = []\<rparr>",
        THEN conjunct2, THEN conjunct2, THEN conjunct1] h3 by simp
  have h4: "system_get_lun racing_storops (Some ''lun-1'') None
              (uarray (ustart \<lparr>luns_of = [''lun-1''], snaps_of = []\<rparr>))
            = (Inr ''lun-1'', \<lparr>luns_of = [''lun-1''], snaps_of = []\<rparr>)"
    "fst (lun_delete racing_storops ''lun-1'' \<lparr>luns_of = [''lun-1''], snaps_of = []\<rparr>)
       = Inl UnityResourceNotFoundError"
    by (simp_all add: racing_storops_def ustart_def)
  have race: "fst (unity_delete_lun racing_storops ''lun-1''
          (ustart \<lparr>luns_of = [''lun-1''], snaps_of = []\<rparr>)) = Inr ()"
    using delete_absorbs_not_found [where sdk = racing_storops and lun_id = "''lun-1''"
        and uw = "ustart \<lparr>luns_of = [''lun-1''], snaps_of = []\<rparr>"
        and lun = "''lun-1''" and ?u1.0 = "\<lparr>luns_of = [''lun-1''], snaps_of = []\<rparr>",
        THEN conjunct2, THEN conjunct2, THEN conjunct2] h4 by simp
  from first_call second_call snap_call ghost race show ?thesis
    unfolding w1_def w0_def by simp
qed

text \<open>
  C6. Whatever lun-maps the array lists for the given initiator groups,
  \<open>_get_free_lun\<close> returns a LUN number: it is positive (never 0), it is not among the
  LUN numbers already mapped to any of the groups, and every smaller positive number is
  among them. (Values that cannot be members of a Python set make the source raise
  before a number is chosen.)
\<close>

theorem get_free_lun_lowest_unused:
  assumes "gather_luns env c igs w = (Inr luns, w')" and "list_all hashable luns"
  shows "\<exists>r. get_free_lun env c igs w = (Inr r, w') \<and> 0 < r \<and> r \<notin> lun_numbers luns
           \<and> (\<forall>k. 0 < k \<and> k < r \<longrightarrow> k \<in> lun_numbers luns)"
  using lowest_free_props [OF assms(2)] assms(1) by (auto simp: get_free_lun_def)

text \<open>Two initiator groups with LUNs 1, 2 and 4 mapped: the free LUN is 3.\<close>

theorem get_free_lun_lowest_unused_witness:
  "fst (gather_luns xms current_client [''ig-a'', ''ig-b'']
          (start [ok (JDict [(''lun-maps'', JList [JDict [(''lun'', JInt 1)], JDict [(''lun'', JInt 2)]])]),
                  ok (JDict [(''lun-maps'', JList [JDict [(''lun'', JInt 4)]])])]))
     = Inr [JInt 1, JInt 2, JInt 4]
   \<and> list_all hashable [JInt 1, JInt 2, JInt 4]
   \<and> fst (get_free_lun xms current_client [''ig-a'', ''ig-b'']
          (start [ok (JDict [(''lun-maps'', JList [JDict [(''lun'', JInt 1)], JDict [(''lun'', JInt 2)]])]),
                  ok (JDict [(''lun-maps'', JList [JDict [(''lun'', JInt 4)]])])]))
     = Inr 3"
proof -
  define w where "w = start [ok (JDict [(''lun-maps'', JList [JDict [(''lun'', JInt 1)], JDict [(''lun'', JInt 2)]])]),
                  ok (JDict [(''lun-maps'', JList [JDict [(''lun'', JInt 4)]])])]"
  define luns where "luns = [JInt 1, JInt 2, JInt 4]"
  have g: "fst (gather_luns xms current_client [''ig-a'', ''ig-b''] w) = Inr luns"
    unfolding w_def luns_def by code_simp
  then have h1: "gather_luns xms current_client [''ig-a'', ''ig-b''] w
                 = (Inr luns, snd (gather_luns xms current_client [''ig-a'', ''ig-b''] w))"
    by (simp add: prod_eq_iff)
  have h2: "list_all hashable luns" by (simp add: luns_def)
  have nums: "lun_numbers luns = {1, 2, 4}"
    by (auto simp: lun_numbers_def luns_def)
  from get_free_lun_lowest_unused [OF h1 h2] obtain r where
    r: "fst (get_free_lun xms current_client [''ig-a'', ''ig-b''] w) = Inr r"
      "0 < r" "r \<notin> {1, 2, 4}" "\<forall>k. 0 < k \<and> k < r \<longrightarrow> k \<in> {1, 2, 4}"
    unfolding nums by auto
  have "\<not> 3 < r" using r(4) [rule_format, of 3] by auto
  with r(2,3) have "r = 3" by auto
  with r(1) g h2 show ?thesis unfolding w_def luns_def by simp
qed



text \<open>
  C8 (as amended). For every call of \<open>req\<close> (a GET or DELETE whose \<open>data\<close> has a
  \<^verbatim>\<open>name\<close> key of its own set aside): a call given both a name and an index (a non-empty name and a non-zero index, as
  Python's truth test reads them) raises \<open>VolumeDriverException\<close> and puts nothing on
  the wire; every request the call does env carries the \<^verbatim>\<open>name\<close> query parameter
  exactly when a name was given, has the index appended to its URL exactly when only an
  index was given, and so never both. A request with neither (a listing) is sent as well.
\<close>

theorem req_identifies_by_at_most_one:
  assumes "\<not> own_name_key m data"
  shows "(both_given name idx \<longrightarrow>
            fst (XtremIOClient_req env c ot m data name idx ver w)
              = Inl (VolumeDriverException ''can't handle both name and index in req'')
          \<and> sent (snd (XtremIOClient_req env c ot m data name idx ver w)) = sent w)
       \<and> (\<forall>r \<in> set (drop (length (sent w))
                        (sent (snd (XtremIOClient_req env c ot m data name idx ver w)))).
            name_in_query r = truthy name
          \<and> index_in_path c ot ver idx r = (\<not> truthy name \<and> idx \<noteq> None \<and> idx \<noteq> Some 0)
          \<and> \<not> (name_in_query r \<and> index_in_path c ot ver idx r))"
proof (intro conjI impI ballI)
  let ?iv = "xtremio_array_busy_retry_interval (CONF env)"
  let ?n = "xtremio_array_busy_retry_count (CONF env) - 1"
  let ?f = "req_body env c ot m name idx ver"
  obtain res d' w' where rl: "retry_loop is_XtremIOArrayBusy (sleep ?iv) ?n ?f (data, w) = (res, (d', w'))"
    by (metis surj_pair)
  have R: "XtremIOClient_req env c ot m data name idx ver w = (res, w')"
    using rl by (rule XtremIOClient_req_eq)
  from retry_loop_sent [OF rl assms] obtain rs where
    rs: "sent w' = sent w @ rs"
      "\<forall>r \<in> set rs. \<not> both_given name idx
         \<and> (\<exists>x. \<not> own_name_key m x \<and> r = build_request c ot m x name idx ver)"
    by auto
  {
    assume bg: "both_given name idx"
    have "final is_XtremIOArrayBusy (fst (?f (data, w)))"
      using bg by (simp add: req_body_both_given final_def)
    then have "retry_loop is_XtremIOArrayBusy (sleep ?iv) ?n ?f (data, w) = ?f (data, w)"
      by (rule retry_loop_final)
    then have "XtremIOClient_req env c ot m data name idx ver w
               = (Inl (VolumeDriverException ''can't handle both name and index in req''),
                  emit (Logged ERROR ''can't handle both name and index in req'') w)"
      using bg by (simp add: XtremIOClient_req_def retry_def req_body_both_given)
    then show "fst (XtremIOClient_req env c ot m data name idx ver w)
                = Inl (VolumeDriverException ''can't handle both name and index in req'')"
      and "sent (snd (XtremIOClient_req env c ot m data name idx ver w)) = sent w"
      by simp_all
  }
  fix r
  assume "r \<in> set (drop (length (sent w))
                        (sent (snd (XtremIOClient_req env c ot m data name idx ver w))))"
  then have "r \<in> set rs" using R rs(1) by simp
  with rs(2) obtain x where x: "\<not> both_given name idx" "\<not> own_name_key m x"
    "r = build_request c ot m x name idx ver" by blast
  show n: "name_in_query r = truthy name"
    using build_request_name [OF x(2)] x(3) by simp
  show i: "index_in_path c ot ver idx r = (\<not> truthy name \<and> idx \<noteq> None \<and> idx \<noteq> Some 0)"
    using build_request_index [OF x(1)] x(3) by simp
  show "\<not> (name_in_query r \<and> index_in_path c ot ver idx r)"
    using n i by simp
qed

text \<open>
  A call with a name and an index sends nothing; a call with index 12 alone sends one
  request, to \<^verbatim>\<open>.../lun-maps/12\<close>, without a name.
\<close>

theorem req_identifies_by_at_most_one_witness:
  "\<not> own_name_key ''GET'' []
   \<and> fst (XtremIOClient_req xms legacy_client ''volumes'' ''GET'' [] (JStr ''v1'') (Some 3) ''v1''
            (start [ok (JDict [])]))
       = Inl (VolumeDriverException ''can't handle both name and index in req'')
   \<and> sent (snd (XtremIOClient_req xms legacy_client ''volumes'' ''GET'' [] (JStr ''v1'') (Some 3) ''v1''
            (start [ok (JDict [])]))) = []
   \<and> sent (snd (XtremIOClient_req xms legacy_client ''lun-maps'' ''GET'' [] JNull (Some 12) ''v1''
            (start [ok (JDict [])])))
       = [\<lparr>r_method = ''GET'', r_url = ''https://xms/api/json/types/lun-maps/12'', r_params = [],
           r_data = [], r_verify = Verify False, r_auth = (''admin'', ''secret'')\<rparr>]
   \<and> index_in_path legacy_client ''lun-maps'' ''v1'' (Some 12)
        \<lparr>r_method = ''GET'', r_url = ''https://xms/api/json/types/lun-maps/12'', r_params = [],
          r_data = [], r_verify = Verify False, r_auth = (''admin'', ''secret'')\<rparr>
   \<and> \<not> name_in_query
        \<lparr>r_method = ''GET'', r_url = ''https://xms/api/json/types/lun-maps/12'', r_params = [],
          r_data = [], r_verify = Verify False, r_auth = (''admin'', ''secret'')\<rparr>"
proof -
  define w where "w = start [ok (JDict [])]"
  define r where "r = \<lparr>r_method = ''GET'', r_url = ''https://xms/api/json/types/lun-maps/12'',
      r_params = [], r_data = [], r_verify = Verify False, r_auth = (''admin'', ''secret'')\<rparr>"
  have h: "\<not> own_name_key ''GET'' []" by (simp add: own_name_key_def)
  have w0: "sent w = []" by (simp add: w_def start_def sent_def)
  have bg: "both_given (JStr ''v1'') (Some 3)" by (simp add: both_given_def)
  have s: "sent (snd (XtremIOClient_req xms legacy_client ''lun-maps'' ''GET'' [] JNull (Some 12) ''v1'' w)) = [r]"
    unfolding w_def r_def by code_simp
  have one: "fst (XtremIOClient_req xms legacy_client ''volumes'' ''GET'' [] (JStr ''v1'') (Some 3) ''v1'' w)
       = Inl (VolumeDriverException ''can't handle both name and index in req'')
     \<and> sent (snd (XtremIOClient_req xms legacy_client ''volumes'' ''GET'' [] (JStr ''v1'') (Some 3) ''v1'' w)) = []"
    using req_identifies_by_at_most_one [OF h, where name = "JStr ''v1''" and idx = "Some 3"
        and env = xms and c = legacy_client and ot = "''volumes''"
        and ver = "''v1''" and w = w, THEN conjunct1] bg w0 by simp
  have two: "name_in_query r = truthy JNull
     \<and> index_in_path legacy_client ''lun-maps'' ''v1'' (Some 12) r
         = (\<not> truthy JNull \<and> Some (12::int) \<noteq> None \<and> Some (12::int) \<noteq> Some 0)"
    using req_identifies_by_at_most_one [OF h, where name = JNull and idx = "Some 12"
        and env = xms and c = legacy_client and ot = "''lun-maps''"
        and ver = "''v1''" and w = w, THEN conjunct2] s w0 by simp
  from one two s h show ?thesis unfolding w_def [symmetric] r_def [symmetric] by simp
qed

text \<open>
  Against C8 as stated: \<^verbatim>\<open>req('clusters')\<close>, as \<open>check_for_setup_error\<close> calls it,
  sends a request that names its resource in neither way.
\<close>

theorem req_listing_has_neither:
  "sent (snd (XtremIOClient_req xms legacy_client ''clusters'' ''GET'' [] JNull None ''v1''
            (start [ok (JDict [(''clusters'', JList [])])])))
     = [\<lparr>r_method = ''GET'', r_url = ''https://xms/api/json/types/clusters'', r_params = [],
         r_data = [], r_verify = Verify False, r_auth = (''admin'', ''secret'')\<rparr>]
   \<and> \<not> name_in_query
        \<lparr>r_method = ''GET'', r_url = ''https://xms/api/json/types/clusters'', r_params = [],
          r_data = [], r_verify = Verify False, r_auth = (''admin'', ''secret'')\<rparr>
   \<and> \<not> index_in_path legacy_client ''clusters'' ''v1'' None
        \<lparr>r_method = ''GET'', r_url = ''https://xms/api/json/types/clusters'', r_params = [],
          r_data = [], r_verify = Verify False, r_auth = (''admin'', ''secret'')\<rparr>"
  by code_simp

text \<open>
  C9 (as amended). For every response with a status in [200, 300) that an attempt of
  \<open>req\<close> receives (the first, or a later one after busy answers), \<open>handle_errors\<close> is not
  entered for that response and the call returns at once: for GET and POST the parsed
  body, unchanged (a ValueError when the text is not JSON); for every other verb the
  empty string, whatever the body.
\<close>

theorem req_success_returns:
  assumes "k < xtremio_array_busy_retry_count (CONF env)"
    and "req_busy env c ot m name idx ver k data w"
    and "attempt_state (sleep (xtremio_array_busy_retry_interval (CONF env)))
           (req_body env c ot m name idx ver) k (data, w) = (dk, wk)"
    and "\<not> both_given name idx"
    and "transport env (build_request c ot m dk name idx ver) (array wk) = (Response resp, a')"
    and "200 \<le> status_code resp" and "status_code resp < 300"
  shows "(\<exists>w'. XtremIOClient_req env c ot m data name idx ver w = (returned_body m resp, w')
            \<and> classified w' = classified wk \<and> array w' = a')
       \<and> returned_body ''GET'' resp = (case json_body resp of None \<Rightarrow> Inl ValueError | Some j \<Rightarrow> Inr j)
       \<and> returned_body ''POST'' resp = (case json_body resp of None \<Rightarrow> Inl ValueError | Some j \<Rightarrow> Inr j)
       \<and> returned_body ''PUT'' resp = Inr (JStr [])
       \<and> returned_body ''DELETE'' resp = Inr (JStr [])"
proof -
  from req_body_success [where env = env and w = wk and data = dk, OF assms(4,5,6,7)]
  obtain d' w' where
    w': "req_body env c ot m name idx ver (dk, wk) = (returned_body m resp, (d', w'))"
      "classified w' = classified wk" "array w' = a'"
    by blast
  have att: "req_attempt env c ot m name idx ver k data w
             = (returned_body m resp, (d', w'))"
    using w'(1) assms(3) by (simp add: req_attempt_def)
  from req_after_busy [OF assms(1,2) att returned_body_final]
  have "XtremIOClient_req env c ot m data name idx ver w = (returned_body m resp, w')" by simp
  with w'(2,3) show ?thesis by (simp add: returned_body_def)
qed

text \<open>A POST answered busy once and then with a body: the body is returned.\<close>

theorem req_success_returns_witness:
  "fst (XtremIOClient_req xms current_client ''snapshots'' ''POST'' [(''snap-suffix'', JStr ''s1'')]
          JNull None ''v2''
          (start [refuse ''system_is_busy'', ok (JDict [(''links'', JList [])])]))
     = Inr (JDict [(''links'', JList [])])"
proof -
  define w where "w = start [refuse ''system_is_busy'', ok (JDict [(''links'', JList [])])]"
  define f where "f = req_body xms current_client ''snapshots'' ''POST'' JNull None ''v2''"
  define st where "st = attempt_state
       (sleep (xtremio_array_busy_retry_interval (CONF xms))) f 1
       ([(''snap-suffix'', JStr ''s1'')], w)"
  have h1: "1 < xtremio_array_busy_retry_count (CONF xms)"
    by (simp add: xms_def xms_conf_def default_configuration_def)
  have h2: "req_busy xms current_client ''snapshots'' ''POST'' JNull None ''v2'' 1
              [(''snap-suffix'', JStr ''s1'')] w"
    unfolding w_def by code_simp
  have h3: "attempt_state
       (sleep (xtremio_array_busy_retry_interval (CONF xms)))
       (req_body xms current_client ''snapshots'' ''POST'' JNull None ''v2'') 1
       ([(''snap-suffix'', JStr ''s1'')], w) = (fst st, snd st)"
    by (simp add: st_def f_def)
  have h4: "\<not> both_given JNull None" by (simp add: both_given_def)
  have "fst (transport xms (build_request current_client ''snapshots'' ''POST'' (fst st) JNull None ''v2'')
          (array (snd st))) = ok (JDict [(''links'', JList [])])"
    unfolding st_def f_def w_def by code_simp
  then have h5: "transport xms (build_request current_client ''snapshots'' ''POST'' (fst st) JNull None ''v2'')
          (array (snd st))
        = (Response \<lparr>status_code = 200, text_of = ''(json)'',
                     json_body = Some (JDict [(''links'', JList [])])\<rparr>,
           snd (transport xms (build_request current_client ''snapshots'' ''POST'' (fst st) JNull None ''v2'')
                  (array (snd st))))"
    by (simp add: prod_eq_iff ok_def)
  from req_success_returns [OF h1 h2 h3 h4 h5] show ?thesis
    unfolding w_def by (auto simp: returned_body_def)
qed

text \<open>Against C9 as stated: a PUT answered 200 with a JSON body returns the empty string.\<close>

theorem req_put_discards_body:
  "fst (XtremIOClient_req xms legacy_client ''volumes'' ''PUT'' [(''vol-size'', JStr ''2g'')]
          (JStr ''v1'') None ''v1''
          (start [Response \<lparr>status_code = 200, text_of = ''(json)'',
                            json_body = Some (JDict [(''index'', JInt 7)])\<rparr>]))
     = Inr (JStr [])
   \<and> Inr (JStr []) \<noteq> (Inr (JDict [(''index'', JInt 7)]) :: exn + json)"
  by code_simp

text \<open>
  C10. \<open>UnityClient.delete_snap\<close>: given \<^verbatim>\<open>None\<close> it returns at once, with no call
  into the library and the array untouched; when the deletion raises
  \<open>UnityResourceNotFoundError\<close> it returns normally; when the deletion raises
  \<open>UnityDeleteAttachedSnapError\<close> (the snapshot is in use) it logs a warning and raises
  the same error to the caller.
\<close>

theorem delete_snap_cases:
  "fst (unity_delete_snap sdk None w) = Inr ()
   \<and> uarray (snd (unity_delete_snap sdk None w)) = uarray w
   \<and> calls (snd (unity_delete_snap sdk None w)) = calls w
   \<and> (fst (snap_delete sdk s (uarray w)) = Inl UnityResourceNotFoundError
      \<longrightarrow> fst (unity_delete_snap sdk (Some s) w) = Inr ()
        \<and> calls (snd (unity_delete_snap sdk (Some s) w)) = calls w @ [''snap.delete''])
   \<and> (fst (snap_delete sdk s (uarray w)) = Inl UnityDeleteAttachedSnapError
      \<longrightarrow> fst (unity_delete_snap sdk (Some s) w) = Inl UnityDeleteAttachedSnapError
        \<and> ulogged (snd (unity_delete_snap sdk (Some s) w))
            = ulogged w @ [(WARNING, ''Failed to delete snapshot %(snap_name)s which is in use. Message: %(err)s'')])"
proof (intro conjI impI)
  show "fst (unity_delete_snap sdk None w) = Inr ()"
    and "uarray (snd (unity_delete_snap sdk None w)) = uarray w"
    and "calls (snd (unity_delete_snap sdk None w)) = calls w"
    by (simp_all add: unity_delete_snap_def)
next
  assume "fst (snap_delete sdk s (uarray w)) = Inl UnityResourceNotFoundError"
  from call_result [where op = "snap_delete sdk s" and w = w and what = "''snap.delete''", OF this]
  obtain w1 where c: "call ''snap.delete'' (snap_delete sdk s) w = (Inl UnityResourceNotFoundError, w1)"
    "calls w1 = calls w @ [''snap.delete'']"
    by auto
  from c show "fst (unity_delete_snap sdk (Some s) w) = Inr ()"
    by (simp add: unity_delete_snap_def)
  from c show "calls (snd (unity_delete_snap sdk (Some s) w)) = calls w @ [''snap.delete'']"
    by (simp add: unity_delete_snap_def)
next
  assume "fst (snap_delete sdk s (uarray w)) = Inl UnityDeleteAttachedSnapError"
  from call_result [where op = "snap_delete sdk s" and w = w and what = "''snap.delete''", OF this]
  obtain w1 where c: "call ''snap.delete'' (snap_delete sdk s) w = (Inl UnityDeleteAttachedSnapError, w1)"
    "ulogged w1 = ulogged w"
    by auto
  from c show "fst (unity_delete_snap sdk (Some s) w) = Inl UnityDeleteAttachedSnapError"
    by (simp add: unity_delete_snap_def)
  from c show "ulogged (snd (unity_delete_snap sdk (Some s) w))
            = ulogged w @ [(WARNING, ''Failed to delete snapshot %(snap_name)s which is in use. Message: %(err)s'')]"
    by (simp add: unity_delete_snap_def)
qed

text \<open>A snapshot the array does not have, and a snapshot that is attached.\<close>

theorem delete_snap_cases_witness:
  "fst (unity_delete_snap toy_storops (Some ''gone'')
          (ustart \<lparr>luns_of = [''lun-1''], snaps_of = [(''busy'', True)]\<rparr>)) = Inr ()
   \<and> fst (unity_delete_snap toy_storops (Some ''busy'')
          (ustart \<lparr>luns_of = [''lun-1''], snaps_of = [(''busy'', True)]\<rparr>))
       = Inl UnityDeleteAttachedSnapError
   \<and> ulogged (snd (unity_delete_snap toy_storops (Some ''busy'')
          (ustart \<lparr>luns_of = [''lun-1''], snaps_of = [(''busy'', True)]\<rparr>)))
       = [(WARNING, ''Failed to delete snapshot %(snap_name)s which is in use. Message: %(err)s'')]"
proof -
  define w where "w = ustart \<lparr>luns_of = [''lun-1''], snaps_of = [(''busy'', True)]\<rparr>"
  have h1: "fst (snap_delete toy_storops ''gone'' (uarray w)) = Inl UnityResourceNotFoundError"
    and h2: "fst (snap_delete toy_storops ''busy'' (uarray w)) = Inl UnityDeleteAttachedSnapError"
    and l: "ulogged w = []"
    by (simp_all add: toy_storops_def w_def ustart_def ulogged_def)
  from delete_snap_cases [where sdk = toy_storops and s = "''gone''" and w = w,
      THEN conjunct2, THEN conjunct2, THEN conjunct2, THEN conjunct1] h1
  have a: "fst (unity_delete_snap toy_storops (Some ''gone'') w) = Inr ()" by simp
  from delete_snap_cases [where sdk = toy_storops and s = "''busy''" and w = w,
      THEN conjunct2, THEN conjunct2, THEN conjunct2, THEN conjunct2] h2 l
  have b: "fst (unity_delete_snap toy_storops (Some ''busy'') w) = Inl UnityDeleteAttachedSnapError
        \<and> ulogged (snd (unity_delete_snap toy_storops (Some ''busy'') w))
            = [(WARNING, ''Failed to delete snapshot %(snap_name)s which is in use. Message: %(err)s'')]"
    by simp
  from a b show ?thesis unfolding w_def by simp
qed

end
